theory Spec2Isabelle
  imports Main "HOL-Library.Word"
begin

section \<open>github-trending-ja: the enrichment pipelines and the Discord embed colour\<close>

text \<open>
  The repository holds two implementations of one pipeline: a Go command (\<open>main.go\<close>,
  functions \<open>run\<close>, \<open>fetchReadme\<close>, \<open>OllamaClient.Summarize\<close>, \<open>buildDiscordMessages\<close>,
  \<open>languageToColor\<close>) and a TypeScript worker (\<open>server/index.ts\<close>, functions
  \<open>fetchReadme\<close>, \<open>summarizeReadme\<close>, \<open>getTrendingReposWithSummary\<close>). Both are embedded
  here. Names are the source's; where the two implementations share a name the
  TypeScript one carries the prefix \<open>ts_\<close>.

  Network calls are calls to an environment: a record of functions that take the current
  world (of an arbitrary type \<open>'w\<close>) and return a reply and the next world, so that the
  same request may be answered differently at different times. Every call is also
  appended to a trace, which is how "was the backend called, and with what" is stated.
\<close>

record ('w, 'e) exec =
  world :: 'w
  trace :: "'e list"

subsection \<open>Go: data model\<close>

text \<open>
  A Go \<open>string\<close> is a sequence of bytes, here a \<open>char list\<close>; \<open>len\<close> is \<open>length\<close> and
  \<open>s[:n]\<close> is \<open>take n s\<close>. String constants with Japanese text are written as their
  UTF-8 bytes.

  The Discord structs are declared first, so that the unqualified field names
  \<open>Title\<close>, \<open>URL\<close> and \<open>Description\<close> below mean those of \<open>TrendingRepo\<close>.
\<close>

record DiscordEmbedField =
  Name :: string
  Value :: string
  Inline :: bool

record DiscordEmbed =
  Title :: string
  Description :: string
  URL :: string
  Color :: int
  Fields :: "DiscordEmbedField list"
  Timestamp :: string

record DiscordWebhookPayload =
  Content :: string
  Embeds :: "DiscordEmbed list"

record Contributor =
  Avatar :: string
  Name :: string
  URL :: string

record TrendingRepo =
  Title :: string
  URL :: string
  Description :: string
  Language :: string
  LanguageColor :: string
  Stars :: string
  Forks :: string
  AddStars :: string
  Contributors :: "Contributor list"

text \<open>
  \<open>TrendingRepoWithSummary\<close> is a struct of its own in Go, with the fields of
  \<open>TrendingRepo\<close> and \<open>Summary\<close>. It is a record extension here; \<open>run\<close> still builds it
  field by field, as the struct literal of the source does.
\<close>

record TrendingRepoWithSummary = TrendingRepo +
  Summary :: string

record OllamaRequest =
  Model :: string
  Prompt :: string
  Stream :: bool

record OllamaResponse =
  Response :: string

text \<open>The \<open>HTTP\<close> field of \<open>OllamaClient\<close> is the environment's \<open>Do\<close>.\<close>

record OllamaClient =
  BaseURL :: string
  Model :: string

text \<open>
  What \<open>client.Repositories.GetReadme\<close> hands back when it does not fail: a value whose
  \<open>GetContent()\<close> is the decoded text, or an error (\<open>None\<close>).
\<close>

datatype RepositoryContent = RepositoryContent (GetContent: "string option")

text \<open>
  An HTTP response of the Ollama server: its status code and what
  \<open>json.NewDecoder(resp.Body).Decode\<close> makes of its body (\<open>None\<close>: the decoder fails).
\<close>

datatype http_Response = http_Response (StatusCode: int) (Body: "OllamaResponse option")

datatype error =
    GetReadmeError
  | GetContentError
  | MarshalRequestError
  | CreateRequestError
  | DoRequestError
  | UnexpectedStatus int
  | DecodeResponseError

datatype go_event =
    GetReadmeCall string string
  | SummarizeCall string
  | HttpPost string string

text \<open>
  The environment of the Go program. \<open>GetReadme owner name\<close> is the GitHub API call
  (\<open>None\<close>: it returns an error). \<open>NewRequest url\<close> tells whether
  \<open>http.NewRequestWithContext\<close> accepts the URL. \<open>Do url body\<close> is \<open>c.HTTP.Do\<close> on the
  POST request whose body is the bytes \<open>body\<close> (\<open>None\<close>: a transport error). The event
  \<open>HttpPost url body\<close> records what is sent.
\<close>

record 'w GoEnv =
  GetReadme :: "string \<Rightarrow> string \<Rightarrow> 'w \<Rightarrow> RepositoryContent option \<times> 'w"
  NewRequest :: "string \<Rightarrow> bool"
  Do :: "string \<Rightarrow> string \<Rightarrow> 'w \<Rightarrow> http_Response option \<times> 'w"

subsection \<open>Go: library functions used by the program\<close>

text \<open>
  \<open>strings.SplitN(s, sep, n)\<close> for a separator of one byte: \<open>n = 0\<close> gives no
  substrings, otherwise at most \<open>n\<close> substrings, the last one the unsplit remainder.
\<close>

fun SplitN :: "'a list \<Rightarrow> 'a \<Rightarrow> nat \<Rightarrow> 'a list list" where
  "SplitN s sep 0 = []"
| "SplitN s sep (Suc 0) = [s]"
| "SplitN s sep (Suc (Suc n)) =
     (if sep \<in> set s
      then takeWhile (\<lambda>c. c \<noteq> sep) s # SplitN (tl (dropWhile (\<lambda>c. c \<noteq> sep) s)) sep (Suc n)
      else [s])"

text \<open>
  \<open>strings.TrimSpace\<close>, on the ASCII white space (tab, LF, VT, FF, CR, space). Go also
  trims the multi-byte Unicode spaces; they are not modelled.
\<close>

definition isSpace :: "char \<Rightarrow> bool" where
  "isSpace c = (c \<in> {CHR 0x09, CHR 0x0A, CHR 0x0B, CHR 0x0C, CHR 0x0D, CHR 0x20})"

definition TrimSpace :: "string \<Rightarrow> string" where
  "TrimSpace s = rev (dropWhile isSpace (rev (dropWhile isSpace s)))"

text \<open>\<open>strings.TrimPrefix\<close>.\<close>

definition TrimPrefix :: "string \<Rightarrow> string \<Rightarrow> string" where
  "TrimPrefix s p = (if take (length p) s = p then drop (length p) s else s)"

text \<open>
  \<open>fmt.Sscanf(color, "%x", &result)\<close> with \<open>result\<close> an \<open>int\<close> of 64 bits: blanks
  (space, tab, VT, FF, CR) are skipped, a sign is accepted, then the longest run of
  hexadecimal digits is read. With no digit, or with a value outside the 64-bit range,
  the scan fails (\<open>None\<close>) and the operand is left untouched. Input after the digits is
  ignored. The multi-byte Unicode spaces are not modelled. The hexadecimal digits are
  \<open>0\<close> to \<open>9\<close> (bytes 48 to 57), \<open>a\<close> to \<open>f\<close> (97 to 102) and \<open>A\<close> to \<open>F\<close> (65 to 70).
\<close>

definition isHexDigit :: "char \<Rightarrow> bool" where
  "isHexDigit c =
     (let n = (of_char c :: int)
      in (48 \<le> n \<and> n \<le> 57) \<or> (97 \<le> n \<and> n \<le> 102) \<or> (65 \<le> n \<and> n \<le> 70))"

definition hexDigitVal :: "char \<Rightarrow> int" where
  "hexDigitVal c =
     (let n = (of_char c :: int)
      in if 48 \<le> n \<and> n \<le> 57 then n - 48
         else if 97 \<le> n \<and> n \<le> 102 then n - 87
         else n - 55)"

definition hexVal :: "string \<Rightarrow> int" where
  "hexVal ds = foldl (\<lambda>acc c. 16 * acc + hexDigitVal c) 0 ds"

definition Sscanf_x :: "string \<Rightarrow> int option" where
  "Sscanf_x input =
     (let s = dropWhile (\<lambda>c. c \<in> {CHR '' '', CHR 0x09, CHR 0x0B, CHR 0x0C, CHR 0x0D}) input;
          neg = (s \<noteq> [] \<and> hd s = CHR ''-'');
          s' = (if s \<noteq> [] \<and> (hd s = CHR ''+'' \<or> hd s = CHR ''-'') then tl s else s);
          tok = takeWhile isHexDigit s';
          v = (if neg then - hexVal tok else hexVal tok)
      in if tok = [] then None
         else if v < - (2 ^ 63) \<or> 2 ^ 63 \<le> v then None
         else Some v)"

subsection \<open>Go: \<open>json.Marshal\<close> of the request\<close>

text \<open>
  \<open>utf8.DecodeRuneInString\<close>: the character at the head of the bytes and the number of
  bytes it takes, or \<open>RuneError\<close> and 1 when the bytes at the head are not the UTF-8
  encoding of a character. \<open>first_byte\<close> is the table \<open>first\<close> read together with
  \<open>acceptRanges\<close>: the length the first byte announces (1 for ASCII and for a byte that
  cannot start a character) and the range the second byte must lie in.
\<close>

definition RuneError :: nat where
  "RuneError = 0xFFFD"

definition inRange :: "char \<Rightarrow> nat \<Rightarrow> nat \<Rightarrow> bool" where
  "inRange b lo hi = (lo \<le> of_char b \<and> (of_char b :: nat) \<le> hi)"

definition first_byte :: "char \<Rightarrow> nat \<times> nat \<times> nat" where
  "first_byte b =
     (let n = (of_char b :: nat)
      in if n < 0xC2 then (1, 0, 0)
         else if n < 0xE0 then (2, 0x80, 0xBF)
         else if n = 0xE0 then (3, 0xA0, 0xBF)
         else if n = 0xED then (3, 0x80, 0x9F)
         else if n < 0xF0 then (3, 0x80, 0xBF)
         else if n = 0xF0 then (4, 0x90, 0xBF)
         else if n < 0xF4 then (4, 0x80, 0xBF)
         else if n = 0xF4 then (4, 0x80, 0x8F)
         else (1, 0, 0))"

definition DecodeRuneInString :: "string \<Rightarrow> nat \<times> nat" where
  "DecodeRuneInString s =
     (case s of
        [] \<Rightarrow> (RuneError, 0)
      | s0 # r0 \<Rightarrow>
          (case first_byte s0 of
             (sz, lo, hi) \<Rightarrow>
               if sz = 1 then (if (of_char s0 :: nat) < 0x80 then of_char s0 else RuneError, 1)
               else if length s < sz then (RuneError, 1)
               else
                 (case r0 of
                    [] \<Rightarrow> (RuneError, 1)
                  | s1 # r1 \<Rightarrow>
                      if \<not> inRange s1 lo hi then (RuneError, 1)
                      else if sz \<le> 2 then (of_char s0 mod 32 * 64 + of_char s1 mod 64, 2)
                      else
                        (case r1 of
                           [] \<Rightarrow> (RuneError, 1)
                         | s2 # r2 \<Rightarrow>
                             if \<not> inRange s2 0x80 0xBF then (RuneError, 1)
                             else if sz \<le> 3 then
                               (of_char s0 mod 16 * 4096 + of_char s1 mod 64 * 64
                                  + of_char s2 mod 64, 3)
                             else
                               (case r2 of
                                  [] \<Rightarrow> (RuneError, 1)
                                | s3 # r3 \<Rightarrow>
                                    if \<not> inRange s3 0x80 0xBF then (RuneError, 1)
                                    else
                                      (of_char s0 mod 8 * 262144 + of_char s1 mod 64 * 4096
                                         + of_char s2 mod 64 * 64 + of_char s3 mod 64, 4))))))"

text \<open>
  \<open>appendString\<close> of \<open>encoding/json\<close>, with \<open>escapeHTML\<close> set as \<open>json.Marshal\<close> sets it.
  The result is the string between double quotes (byte \<open>0x22\<close>), in which
  \<^item> a backslash (byte \<open>0x5C\<close>) or a double quote gets a backslash in front;
  \<^item> backspace, form feed, line feed, carriage return and tab are a backslash and the
    letter \<open>b\<close>, \<open>f\<close>, \<open>n\<close>, \<open>r\<close> or \<open>t\<close> (for the first two, since Go 1.22);
  \<^item> the other bytes below \<open>0x20\<close> and the characters \<open><\<close>, \<open>>\<close> and \<open>&\<close> are a
    backslash, \<open>u00\<close> and the two hexadecimal digits of the byte;
  \<^item> a byte that is not part of the UTF-8 encoding of a character is a backslash and
    \<open>ufffd\<close>;
  \<^item> U+2028 and U+2029 are a backslash and \<open>u2028\<close> or \<open>u2029\<close>;
  \<^item> every other character is copied.
\<close>

definition hex :: "nat \<Rightarrow> char" where
  "hex n = ''0123456789abcdef'' ! n"

definition htmlSafe :: "char \<Rightarrow> bool" where
  "htmlSafe b =
     (0x20 \<le> (of_char b :: nat)
      \<and> b \<notin> {CHR 0x22, CHR ''&'', CHR ''<'', CHR ''>'', CHR 0x5C})"

definition escapeByte :: "char \<Rightarrow> string" where
  "escapeByte b =
     (if htmlSafe b then [b]
      else if b = CHR 0x5C \<or> b = CHR 0x22 then [CHR 0x5C, b]
      else if b = CHR 0x08 then [CHR 0x5C, CHR ''b'']
      else if b = CHR 0x0C then [CHR 0x5C, CHR ''f'']
      else if b = CHR 0x0A then [CHR 0x5C, CHR ''n'']
      else if b = CHR 0x0D then [CHR 0x5C, CHR ''r'']
      else if b = CHR 0x09 then [CHR 0x5C, CHR ''t'']
      else [CHR 0x5C, CHR ''u'', CHR ''0'', CHR ''0'', hex (of_char b div 16), hex (of_char b mod 16)])"

fun escapeString :: "string \<Rightarrow> string" where
  "escapeString [] = []"
| "escapeString (b # bs) =
     (if (of_char b :: nat) < 0x80 then escapeByte b @ escapeString bs
      else
        (case DecodeRuneInString (b # bs) of
           (c, sz) \<Rightarrow>
             if c = RuneError \<and> sz = 1 then
               [CHR 0x5C, CHR ''u'', CHR ''f'', CHR ''f'', CHR ''f'', CHR ''d''] @ escapeString bs
             else if c = 0x2028 \<or> c = 0x2029 then
               [CHR 0x5C, CHR ''u'', CHR ''2'', CHR ''0'', CHR ''2'', hex (c mod 16)]
                 @ escapeString (drop (sz - 1) bs)
             else b # take (sz - 1) bs @ escapeString (drop (sz - 1) bs)))"

definition appendString :: "string \<Rightarrow> string" where
  "appendString s = CHR 0x22 # escapeString s @ [CHR 0x22]"

text \<open>
  The encoding of an \<open>OllamaRequest\<close>: its three fields under the names of their \<open>json\<close>
  tags, in the order of the struct, with no white space.
\<close>

definition encodeRequest :: "OllamaRequest \<Rightarrow> string" where
  "encodeRequest r =
     [CHR ''{'', CHR 0x22] @ ''model'' @ [CHR 0x22, CHR '':''] @ appendString (OllamaRequest.Model r)
       @ [CHR '','', CHR 0x22] @ ''prompt'' @ [CHR 0x22, CHR '':''] @ appendString (Prompt r)
       @ [CHR '','', CHR 0x22] @ ''stream'' @ [CHR 0x22, CHR '':'']
       @ (if Stream r then ''true'' else ''false'') @ ''}''"

text \<open>
  \<open>json.Marshal\<close> on an \<open>OllamaRequest\<close>: the encoding. The encoder has no error to
  return for a struct of two strings and a bool, so the result is never \<open>None\<close>.
\<close>

definition Marshal :: "OllamaRequest \<Rightarrow> string option" where
  "Marshal r = Some (encodeRequest r)"

subsection \<open>Go: constants\<close>

definition maxReadmeLen :: nat where
  "maxReadmeLen = 10000"

text \<open>The summary returned for an empty README: U+8AAC U+660E U+306A U+3057.\<close>

definition noDescription :: string where
  "noDescription =
     [CHR 0xE8, CHR 0xAA, CHR 0xAC, CHR 0xE6, CHR 0x98, CHR 0x8E, CHR 0xE3, CHR 0x81,
      CHR 0xAA, CHR 0xE3, CHR 0x81, CHR 0x97]"

text \<open>The summary used on failure: U+8981 U+7D04 U+5931 U+6557.\<close>

definition summaryFailed :: string where
  "summaryFailed =
     [CHR 0xE8, CHR 0xA6, CHR 0x81, CHR 0xE7, CHR 0xB4, CHR 0x84, CHR 0xE5, CHR 0xA4,
      CHR 0xB1, CHR 0xE6, CHR 0x95, CHR 0x97]"

text \<open>
  The text before \<open>%s\<close> in the prompt's format string: a Japanese instruction,
  the digits \<open>100\<close> inside it, and two line feeds at the end.
\<close>

definition promptTemplate :: string where
  "promptTemplate =
     [CHR 0xE4, CHR 0xBB, CHR 0xA5, CHR 0xE4, CHR 0xB8, CHR 0x8B, CHR 0xE3, CHR 0x81,
      CHR 0xAE, CHR 0x52, CHR 0x45, CHR 0x41, CHR 0x44, CHR 0x4D, CHR 0x45, CHR 0xE3,
      CHR 0x81, CHR 0xAE, CHR 0xE5, CHR 0x86, CHR 0x85, CHR 0xE5, CHR 0xAE, CHR 0xB9,
      CHR 0xE3, CHR 0x82, CHR 0x92, CHR 0xE6, CHR 0x97, CHR 0xA5, CHR 0xE6, CHR 0x9C,
      CHR 0xAC, CHR 0xE8, CHR 0xAA, CHR 0x9E, CHR 0xE3, CHR 0x81, CHR 0xA7, CHR 0xE7,
      CHR 0x9F, CHR 0xAD, CHR 0xE3, CHR 0x81, CHR 0x8F, CHR 0xE8, CHR 0xA6, CHR 0x81,
      CHR 0xE7, CHR 0xB4, CHR 0x84, CHR 0xE3, CHR 0x81, CHR 0x9B, CHR 0xE3, CHR 0x82,
      CHR 0x88, CHR 0xE3, CHR 0x80, CHR 0x82, CHR 0x31, CHR 0x30, CHR 0x30, CHR 0xE6,
      CHR 0x96, CHR 0x87, CHR 0xE5, CHR 0xAD, CHR 0x97, CHR 0xE4, CHR 0xBB, CHR 0xA5,
      CHR 0xE5, CHR 0x86, CHR 0x85, CHR 0xE3, CHR 0x81, CHR 0xA7, CHR 0x0A, CHR 0x0A]"

text \<open>The language shown when the repository has none: U+4E0D U+660E.\<close>

definition unknownLanguage :: string where
  "unknownLanguage =
     [CHR 0xE4, CHR 0xB8, CHR 0x8D, CHR 0xE6, CHR 0x98, CHR 0x8E]"

subsection \<open>Go: \<open>fetchReadme\<close> and \<open>OllamaClient.Summarize\<close>\<close>

definition fetchReadme ::
  "'w GoEnv \<Rightarrow> string \<Rightarrow> string \<Rightarrow> ('w, go_event) exec \<Rightarrow> (error + string) \<times> ('w, go_event) exec" where
  "fetchReadme env owner nm st =
     (let (reply, w') = GetReadme env owner nm (world st);
          st' = st\<lparr>world := w', trace := trace st @ [GetReadmeCall owner nm]\<rparr>
      in case reply of
           None \<Rightarrow> (Inl GetReadmeError, st')
         | Some readme \<Rightarrow>
             (case GetContent readme of
                None \<Rightarrow> (Inl GetContentError, st')
              | Some content \<Rightarrow> (Inr content, st')))"

definition Summarize ::
  "'w GoEnv \<Rightarrow> OllamaClient \<Rightarrow> string \<Rightarrow> ('w, go_event) exec \<Rightarrow> (error + string) \<times> ('w, go_event) exec" where
  "Summarize env c readme st =
     (if readme = [] then (Inr noDescription, st)
      else
        let readme' = (if length readme > maxReadmeLen then take maxReadmeLen readme else readme);
            prompt = promptTemplate @ readme';
            reqBody = \<lparr>OllamaRequest.Model = Model c, Prompt = prompt, Stream = False\<rparr>;
            url = BaseURL c @ ''/api/generate''
        in case Marshal reqBody of
             None \<Rightarrow> (Inl MarshalRequestError, st)
           | Some jsonData \<Rightarrow>
               if \<not> NewRequest env url then (Inl CreateRequestError, st)
               else
                 let (reply, w') = Do env url jsonData (world st);
                     st' = st\<lparr>world := w', trace := trace st @ [HttpPost url jsonData]\<rparr>
                 in case reply of
                      None \<Rightarrow> (Inl DoRequestError, st')
                    | Some resp \<Rightarrow>
                        if StatusCode resp \<noteq> 200 then (Inl (UnexpectedStatus (StatusCode resp)), st')
                        else
                          (case Body resp of
                             None \<Rightarrow> (Inl DecodeResponseError, st')
                           | Some ollamaResp \<Rightarrow>
                               if Response ollamaResp = [] then (Inr summaryFailed, st')
                               else (Inr (TrimSpace (Response ollamaResp)), st')))"

subsection \<open>Go: the loop of \<open>run\<close> over the repositories (step 5)\<close>

text \<open>
  \<open>run_body\<close> is one iteration: \<open>None\<close> is the \<open>continue\<close> of the source, \<open>Some\<close> the
  value appended to \<open>results\<close>. The call of \<open>Summarize\<close> is recorded in the trace at the
  call site. The log lines are not modelled.
\<close>

definition run_body ::
  "'w GoEnv \<Rightarrow> OllamaClient \<Rightarrow> TrendingRepo \<Rightarrow> ('w, go_event) exec
     \<Rightarrow> TrendingRepoWithSummary option \<times> ('w, go_event) exec" where
  "run_body env ollamaClient repo st =
     (let parts = SplitN (Title repo) CHR ''/'' 2
      in if length parts \<noteq> 2 then (None, st)
         else
           let owner = parts ! 0;
               nm = parts ! 1;
               (r, st1) = fetchReadme env owner nm st;
               readme = (case r of Inl err \<Rightarrow> Description repo | Inr content \<Rightarrow> content);
               (s, st2) = Summarize env ollamaClient readme
                            (st1\<lparr>trace := trace st1 @ [SummarizeCall readme]\<rparr>);
               summary = (case s of Inl err \<Rightarrow> summaryFailed | Inr text \<Rightarrow> text)
           in (Some \<lparr>Title = Title repo,
                     URL = URL repo,
                     Description = Description repo,
                     Language = Language repo,
                     LanguageColor = LanguageColor repo,
                     Stars = Stars repo,
                     Forks = Forks repo,
                     AddStars = AddStars repo,
                     Contributors = Contributors repo,
                     Summary = summary\<rparr>, st2))"

fun run_loop ::
  "'w GoEnv \<Rightarrow> OllamaClient \<Rightarrow> TrendingRepo list \<Rightarrow> TrendingRepoWithSummary list
     \<Rightarrow> ('w, go_event) exec \<Rightarrow> TrendingRepoWithSummary list \<times> ('w, go_event) exec" where
  "run_loop env ollamaClient [] results st = (results, st)"
| "run_loop env ollamaClient (repo # repos) results st =
     (case run_body env ollamaClient repo st of
        (None, st') \<Rightarrow> run_loop env ollamaClient repos results st'
      | (Some item, st') \<Rightarrow> run_loop env ollamaClient repos (results @ [item]) st')"

text \<open>The results of step 5: the loop started with \<open>results\<close> empty.\<close>

definition run_results ::
  "'w GoEnv \<Rightarrow> OllamaClient \<Rightarrow> TrendingRepo list \<Rightarrow> ('w, go_event) exec
     \<Rightarrow> TrendingRepoWithSummary list \<times> ('w, go_event) exec" where
  "run_results env ollamaClient repos st = run_loop env ollamaClient repos [] st"

subsection \<open>Go: the Discord messages\<close>

definition languageToColor :: "string \<Rightarrow> int" where
  "languageToColor htmlColor =
     (if htmlColor = [] then 0x7289DA
      else
        let color = TrimPrefix htmlColor ''#''
        in case Sscanf_x color of None \<Rightarrow> 0 | Some v \<Rightarrow> v)"

definition reposPerMessage :: nat where
  "reposPerMessage = 1"

definition repoEmbed :: "TrendingRepoWithSummary \<Rightarrow> DiscordEmbed" where
  "repoEmbed repo =
     (let lang = (if Language repo = [] then unknownLanguage else Language repo)
      in \<lparr>DiscordEmbed.Title = Title repo,
          Description = Summary repo,
          URL = URL repo,
          Color = languageToColor (LanguageColor repo),
          Fields = [\<lparr>DiscordEmbedField.Name = [CHR 0xE8, CHR 0xA8, CHR 0x80, CHR 0xE8, CHR 0xAA, CHR 0x9E],
                     Value = lang, Inline = True\<rparr>,
                    \<lparr>DiscordEmbedField.Name = [CHR 0xE3, CHR 0x82, CHR 0xB9, CHR 0xE3, CHR 0x82, CHR 0xBF,
                                               CHR 0xE3, CHR 0x83, CHR 0xBC],
                     Value = Stars repo @ '' (+'' @ AddStars repo @ '')'', Inline = True\<rparr>],
          Timestamp = []\<rparr>)"

text \<open>
  The outer loop of \<open>buildDiscordMessages\<close>, from index \<open>i\<close> with the messages built so
  far. The parameter \<open>generatedAt\<close> of the source is not used by its body.
\<close>

function buildDiscordMessages_from ::
  "nat \<Rightarrow> TrendingRepoWithSummary list \<Rightarrow> DiscordWebhookPayload list \<Rightarrow> DiscordWebhookPayload list" where
  "buildDiscordMessages_from i repos messages =
     (let totalRepos = length repos
      in if i < totalRepos then
           let end' = (if i + reposPerMessage > totalRepos then totalRepos else i + reposPerMessage);
               batch = take (end' - i) (drop i repos);
               embeds = map repoEmbed batch
           in buildDiscordMessages_from (i + reposPerMessage) repos
                (messages @ [\<lparr>Content = [], Embeds = embeds\<rparr>])
         else messages)"
  by pat_completeness auto
termination
  by (relation "measure (\<lambda>(i, repos, messages). length repos - i)") (auto simp: reposPerMessage_def)

definition buildDiscordMessages :: "TrendingRepoWithSummary list \<Rightarrow> DiscordWebhookPayload list" where
  "buildDiscordMessages repos = buildDiscordMessages_from 0 repos []"

subsection \<open>TypeScript: data model\<close>

text \<open>
  A JavaScript string is a sequence of 16-bit code units. \<open>js\<close> turns an ASCII literal
  into one. A value that may be \<open>undefined\<close> or \<open>null\<close> is an \<open>option\<close>.
\<close>

type_synonym jsstring = "16 word list"

definition js :: "string \<Rightarrow> jsstring" where
  "js s = map of_char s"

record ts_Contributor =
  avatar :: jsstring
  name :: jsstring
  url :: jsstring

record ts_TrendingRepo =
  title :: jsstring
  url :: jsstring
  description :: jsstring
  language :: "jsstring option"
  languageColor :: "jsstring option"
  stars :: jsstring
  forks :: jsstring
  addStars :: jsstring
  contributors :: "ts_Contributor list"

text \<open>\<open>TrendingRepoWithSummary = TrendingRepo & { summary: string }\<close>.\<close>

record ts_TrendingRepoWithSummary = ts_TrendingRepo +
  summary :: jsstring

text \<open>How an awaited promise settles.\<close>

datatype 'a settled = Rejected | Fulfilled 'a

text \<open>The \<open>Response\<close> of \<open>fetch\<close>: its \<open>ok\<close> flag and how \<open>res.text()\<close> settles.\<close>

datatype ts_Response = ts_Response bool "jsstring settled"

record GenerateContentParameters =
  model :: jsstring
  contents :: jsstring

text \<open>The response of \<open>generateContent\<close>: its \<open>text\<close>, which may be \<open>undefined\<close>.\<close>

datatype GenerateContentResponse = GenerateContentResponse "jsstring option"

datatype ts_event =
    FetchCall jsstring
  | SummarizeReadmeCall jsstring
  | GenerateContentCall jsstring GenerateContentParameters

text \<open>
  The environment of the worker: \<open>fetch url\<close>, and \<open>generateContent apiKey params\<close> of
  the client made by \<open>new GoogleGenAI({ apiKey })\<close>. The constructor is taken not to
  throw when the key is a string, as the parameter's type says.
\<close>

record 'w TsEnv =
  fetch :: "jsstring \<Rightarrow> 'w \<Rightarrow> ts_Response settled \<times> 'w"
  generateContent ::
    "jsstring \<Rightarrow> GenerateContentParameters \<Rightarrow> 'w \<Rightarrow> GenerateContentResponse settled \<times> 'w"

subsection \<open>TypeScript: library functions and constants\<close>

text \<open>\<open>String.prototype.split\<close> with a separator of one code unit: never an empty array.\<close>

fun split :: "'a list \<Rightarrow> 'a \<Rightarrow> 'a list list" where
  "split [] sep = [[]]"
| "split (c # cs) sep =
     (if c = sep then [] # split cs sep
      else (case split cs sep of
              [] \<Rightarrow> [[c]]
            | p # ps \<Rightarrow> (c # p) # ps))"

text \<open>An element of an array destructuring pattern: \<open>undefined\<close> past the end.\<close>

definition element :: "'a list \<Rightarrow> nat \<Rightarrow> 'a option" where
  "element xs i = (if i < length xs then Some (xs ! i) else None)"

text \<open>A value inside a template literal: \<open>undefined\<close> is printed as the word.\<close>

definition toString :: "jsstring option \<Rightarrow> jsstring" where
  "toString v = (case v of None \<Rightarrow> js ''undefined'' | Some t \<Rightarrow> t)"

text \<open>The placeholder summary: U+8981 U+7D04 U+5931 U+6557.\<close>

definition ts_summaryFailed :: jsstring where
  "ts_summaryFailed =
     [0x8981, 0x7D04, 0x5931, 0x6557]"

text \<open>The text before \<open>${readme}\<close> in the prompt, the same instruction as in Go.\<close>

definition ts_promptTemplate :: jsstring where
  "ts_promptTemplate =
     [0x4EE5, 0x4E0B, 0x306E, 0x0052, 0x0045, 0x0041, 0x0044, 0x004D, 0x0045, 0x306E,
      0x5185, 0x5BB9, 0x3092, 0x65E5, 0x672C, 0x8A9E, 0x3067, 0x77ED, 0x304F, 0x8981,
      0x7D04, 0x305B, 0x3088, 0x3002, 0x0031, 0x0030, 0x0030, 0x6587, 0x5B57, 0x4EE5,
      0x5185, 0x3067, 0x000A, 0x000A]"

definition branches :: "jsstring list" where
  "branches = [js ''main'', js ''master'']"

subsection \<open>TypeScript: \<open>fetchReadme\<close> and \<open>summarizeReadme\<close>\<close>

text \<open>The template literal that builds the URL of a candidate.\<close>

definition readmeUrl :: "jsstring option \<Rightarrow> jsstring option \<Rightarrow> jsstring \<Rightarrow> jsstring" where
  "readmeUrl owner nm branch =
     js ''https://raw.githubusercontent.com/'' @ toString owner @ js ''/'' @ toString nm
       @ js ''/'' @ branch @ js ''/README.md''"

text \<open>
  One turn of the loop of \<open>fetchReadme\<close>: \<open>Some text\<close> is the \<open>return\<close> inside the
  \<open>try\<close>, \<open>None\<close> falls through to the next branch (fetch rejected, response not ok,
  or \<open>res.text()\<close> rejected and caught).
\<close>

definition fetchReadme_branch ::
  "'w TsEnv \<Rightarrow> jsstring option \<Rightarrow> jsstring option \<Rightarrow> jsstring \<Rightarrow> ('w, ts_event) exec
     \<Rightarrow> jsstring option \<times> ('w, ts_event) exec" where
  "fetchReadme_branch env owner nm branch st =
     (let url = readmeUrl owner nm branch;
          (r, w') = fetch env url (world st);
          st' = st\<lparr>world := w', trace := trace st @ [FetchCall url]\<rparr>
      in case r of
           Rejected \<Rightarrow> (None, st')
         | Fulfilled (ts_Response ok body) \<Rightarrow>
             if ok then (case body of Rejected \<Rightarrow> (None, st') | Fulfilled text \<Rightarrow> (Some text, st'))
             else (None, st'))"

fun fetchReadme_loop ::
  "'w TsEnv \<Rightarrow> jsstring option \<Rightarrow> jsstring option \<Rightarrow> jsstring list \<Rightarrow> ('w, ts_event) exec
     \<Rightarrow> jsstring option \<times> ('w, ts_event) exec" where
  "fetchReadme_loop env owner nm [] st = (None, st)"
| "fetchReadme_loop env owner nm (branch # rest) st =
     (case fetchReadme_branch env owner nm branch st of
        (Some text, st') \<Rightarrow> (Some text, st')
      | (None, st') \<Rightarrow> fetchReadme_loop env owner nm rest st')"

definition ts_fetchReadme ::
  "'w TsEnv \<Rightarrow> jsstring option \<Rightarrow> jsstring option \<Rightarrow> ('w, ts_event) exec
     \<Rightarrow> jsstring option \<times> ('w, ts_event) exec" where
  "ts_fetchReadme env owner nm st = fetchReadme_loop env owner nm branches st"

definition summarizeReadme ::
  "'w TsEnv \<Rightarrow> jsstring \<Rightarrow> jsstring \<Rightarrow> ('w, ts_event) exec \<Rightarrow> jsstring \<times> ('w, ts_event) exec" where
  "summarizeReadme env readme apiKey st =
     (let params = \<lparr>model = js ''gemini-2.0-flash'', contents = ts_promptTemplate @ readme\<rparr>;
          (r, w') = generateContent env apiKey params (world st);
          st' = st\<lparr>world := w', trace := trace st @ [GenerateContentCall apiKey params]\<rparr>
      in case r of
           Rejected \<Rightarrow> (ts_summaryFailed, st')
         | Fulfilled (GenerateContentResponse text) \<Rightarrow>
             (case text of
                None \<Rightarrow> (ts_summaryFailed, st')
              | Some t \<Rightarrow> if t = [] then (ts_summaryFailed, st') else (t, st')))"

subsection \<open>TypeScript: \<open>getTrendingReposWithSummary\<close>\<close>

text \<open>
  The callback given to \<open>repos.map\<close>, run from start to end on its own. \<open>if (readme)\<close>
  is false for \<open>null\<close> and for the empty string. The object spread \<open>{...repo, summary}\<close>
  is the record extension. The call of \<open>summarizeReadme\<close> is recorded in the trace at
  the call site.
\<close>

definition withSummary :: "ts_TrendingRepo \<Rightarrow> jsstring \<Rightarrow> ts_TrendingRepoWithSummary" where
  "withSummary repo s = ts_TrendingRepo.extend repo \<lparr>summary = s\<rparr>"

definition callback ::
  "'w TsEnv \<Rightarrow> jsstring \<Rightarrow> ts_TrendingRepo \<Rightarrow> ('w, ts_event) exec
     \<Rightarrow> ts_TrendingRepoWithSummary \<times> ('w, ts_event) exec" where
  "callback env apiKey repo st =
     (let parts = split (title repo) 0x2F;
          owner = element parts 0;
          nm = element parts 1;
          (readme, st1) = ts_fetchReadme env owner nm st
      in case readme of
           None \<Rightarrow> (withSummary repo ts_summaryFailed, st1)
         | Some text \<Rightarrow>
             if text = [] then (withSummary repo ts_summaryFailed, st1)
             else
               let (s, st2) = summarizeReadme env text apiKey
                                (st1\<lparr>trace := trace st1 @ [SummarizeReadmeCall text]\<rparr>)
               in (withSummary repo s, st2))"

text \<open>
  \<open>Promise.all(repos.map(async ...))\<close> starts one callback per repository and lets them
  interleave at their awaits. The promise of a callback is in one of three states:
  waiting for the fetch of the first of the branches left, waiting for
  \<open>generateContent\<close>, or resolved. A step of a promise is one awaited network call
  together with the code that runs when it settles, up to the next await; \<open>fetch\<close> and
  the \<open>res.text()\<close> that reads its response are one step.
\<close>

datatype promise =
    AwaitFetch ts_TrendingRepo "jsstring option" "jsstring option" "jsstring list"
  | AwaitGenerate ts_TrendingRepo jsstring
  | Resolved ts_TrendingRepoWithSummary

definition start :: "ts_TrendingRepo \<Rightarrow> promise" where
  "start repo =
     (let parts = split (title repo) 0x2F
      in AwaitFetch repo (element parts 0) (element parts 1) branches)"

definition haveReadme ::
  "ts_TrendingRepo \<Rightarrow> jsstring option \<Rightarrow> ('w, ts_event) exec \<Rightarrow> promise \<times> ('w, ts_event) exec" where
  "haveReadme repo readme st =
     (case readme of
        None \<Rightarrow> (Resolved (withSummary repo ts_summaryFailed), st)
      | Some text \<Rightarrow>
          if text = [] then (Resolved (withSummary repo ts_summaryFailed), st)
          else (AwaitGenerate repo text, st\<lparr>trace := trace st @ [SummarizeReadmeCall text]\<rparr>))"

fun step ::
  "'w TsEnv \<Rightarrow> jsstring \<Rightarrow> promise \<Rightarrow> ('w, ts_event) exec \<Rightarrow> promise \<times> ('w, ts_event) exec" where
  "step env apiKey (AwaitFetch repo owner nm []) st = haveReadme repo None st"
| "step env apiKey (AwaitFetch repo owner nm (branch # rest)) st =
     (case fetchReadme_branch env owner nm branch st of
        (Some text, st') \<Rightarrow> haveReadme repo (Some text) st'
      | (None, st') \<Rightarrow>
          if rest = [] then haveReadme repo None st'
          else (AwaitFetch repo owner nm rest, st'))"
| "step env apiKey (AwaitGenerate repo text) st =
     (case summarizeReadme env text apiKey st of
        (s, st') \<Rightarrow> (Resolved (withSummary repo s), st'))"
| "step env apiKey (Resolved item) st = (Resolved item, st)"

text \<open>
  A schedule is the order in which the promises take their steps, by index in the array;
  an index outside the array, or of a resolved promise, does nothing.
\<close>

fun run_schedule ::
  "'w TsEnv \<Rightarrow> jsstring \<Rightarrow> nat list \<Rightarrow> promise list \<Rightarrow> ('w, ts_event) exec
     \<Rightarrow> promise list \<times> ('w, ts_event) exec" where
  "run_schedule env apiKey [] promises st = (promises, st)"
| "run_schedule env apiKey (i # sched) promises st =
     (if i < length promises then
        (case step env apiKey (promises ! i) st of
           (t', st') \<Rightarrow> run_schedule env apiKey sched (promises[i := t']) st')
      else run_schedule env apiKey sched promises st)"

fun resolved :: "promise \<Rightarrow> ts_TrendingRepoWithSummary option" where
  "resolved (Resolved item) = Some item"
| "resolved _ = None"

text \<open>
  \<open>Promise.all\<close>: once every promise is resolved, the array of their values in the order
  of the promises; \<open>None\<close> while one is pending.
\<close>

fun Promise_all :: "promise list \<Rightarrow> ts_TrendingRepoWithSummary list option" where
  "Promise_all [] = Some []"
| "Promise_all (t # ts) =
     (case resolved t of
        None \<Rightarrow> None
      | Some item \<Rightarrow> (case Promise_all ts of None \<Rightarrow> None | Some items \<Rightarrow> Some (item # items)))"

text \<open>
  \<open>getTrendingReposWithSummary\<close> after \<open>repos = await fetchTrending()\<close>, under a
  schedule. The schedule that runs the callbacks one after the other is
  \<open>sequential (length repos)\<close>.
\<close>

definition getTrendingReposWithSummary ::
  "'w TsEnv \<Rightarrow> jsstring \<Rightarrow> nat list \<Rightarrow> ts_TrendingRepo list \<Rightarrow> ('w, ts_event) exec
     \<Rightarrow> ts_TrendingRepoWithSummary list option \<times> ('w, ts_event) exec" where
  "getTrendingReposWithSummary env apiKey sched repos st =
     (case run_schedule env apiKey sched (map start repos) st of
        (promises, st') \<Rightarrow> (Promise_all promises, st'))"

definition sequential :: "nat \<Rightarrow> nat list" where
  "sequential n = concat (map (\<lambda>i. replicate 3 i) [0..<n])"

text \<open>The repository a promise is working on.\<close>

fun promise_repo :: "promise \<Rightarrow> ts_TrendingRepo" where
  "promise_repo (AwaitFetch repo owner nm bs) = repo"
| "promise_repo (AwaitGenerate repo text) = repo"
| "promise_repo (Resolved item) = ts_TrendingRepo.truncate item"

text \<open>An upper bound on the steps a promise still needs.\<close>

fun steps_left :: "promise \<Rightarrow> nat" where
  "steps_left (AwaitFetch repo owner nm bs) = length bs + 1"
| "steps_left (AwaitGenerate repo text) = 1"
| "steps_left (Resolved item) = 0"

subsection \<open>Sample inputs and environments\<close>

text \<open>
  Concrete inputs on which the theorems below are exercised: the two items of the
  specification's example feed and an item with two separators, in both data models,
  and a few environments over the one-point world.
\<close>

definition sample :: "string \<Rightarrow> string \<Rightarrow> string \<Rightarrow> TrendingRepo" where
  "sample t d col =
     \<lparr>Title = t, URL = ''https://github.com/'' @ t, Description = d, Language = ''Go'',
      LanguageColor = col, Stars = ''10'', Forks = ''1'', AddStars = ''2'', Contributors = []\<rparr>"

definition ts_sample :: "string \<Rightarrow> string \<Rightarrow> ts_TrendingRepo" where
  "ts_sample t d =
     \<lparr>title = js t, url = js (''https://github.com/'' @ t), description = js d,
      language = Some (js ''Go''), languageColor = None, stars = js ''10'', forks = js ''1'',
      addStars = js ''2'', contributors = []\<rparr>"

definition st0 :: "(unit, 'e) exec" where
  "st0 = \<lparr>world = (), trace = []\<rparr>"

definition client0 :: OllamaClient where
  "client0 = \<lparr>BaseURL = ''http://localhost:11434'', Model = ''m''\<rparr>"

text \<open>No README and no backend: every call fails.\<close>

definition go_offline :: "unit GoEnv" where
  "go_offline =
     \<lparr>GetReadme = (\<lambda>owner nm w. (None, w)),
      NewRequest = (\<lambda>u. True),
      Do = (\<lambda>u body w. (None, w))\<rparr>"

text \<open>The given README is found, and the backend answers 200 with the given text.\<close>

definition go_serves :: "string \<Rightarrow> string \<Rightarrow> unit GoEnv" where
  "go_serves readme answer =
     \<lparr>GetReadme = (\<lambda>owner nm w. (Some (RepositoryContent (Some readme)), w)),
      NewRequest = (\<lambda>u. True),
      Do = (\<lambda>u body w. (Some (http_Response 200 (Some \<lparr>Response = answer\<rparr>)), w))\<rparr>"

text \<open>No README, and the backend answers 200 with the given text.\<close>

definition go_no_readme :: "string \<Rightarrow> unit GoEnv" where
  "go_no_readme answer =
     \<lparr>GetReadme = (\<lambda>owner nm w. (None, w)),
      NewRequest = (\<lambda>u. True),
      Do = (\<lambda>u body w. (Some (http_Response 200 (Some \<lparr>Response = answer\<rparr>)), w))\<rparr>"

definition ts_offline :: "unit TsEnv" where
  "ts_offline =
     \<lparr>fetch = (\<lambda>u w. (Rejected, w)),
      generateContent = (\<lambda>k p w. (Rejected, w))\<rparr>"

text \<open>Every fetch is answered with the given text, every generation with \<open>ok\<close>.\<close>

definition ts_serves :: "jsstring \<Rightarrow> unit TsEnv" where
  "ts_serves readme =
     \<lparr>fetch = (\<lambda>u w. (Fulfilled (ts_Response True (Fulfilled readme)), w)),
      generateContent = (\<lambda>k p w. (Fulfilled (GenerateContentResponse (Some (js ''ok''))), w))\<rparr>"

text \<open>The fetch of the \<open>main\<close> branch is rejected, the other one answered.\<close>

definition ts_master_only :: "jsstring \<Rightarrow> unit TsEnv" where
  "ts_master_only readme =
     \<lparr>fetch = (\<lambda>u w. if u = readmeUrl (Some (js ''a'')) (Some (js ''b'')) (js ''master'')
                       then (Fulfilled (ts_Response True (Fulfilled readme)), w)
                       else (Rejected, w)),
      generateContent = (\<lambda>k p w. (Fulfilled (GenerateContentResponse (Some (js ''ok''))), w))\<rparr>"

subsection \<open>Predicates used to state the properties\<close>

text \<open>Every field of the source item is found unchanged in the enriched item.\<close>

definition unchanged :: "TrendingRepoWithSummary \<Rightarrow> TrendingRepo \<Rightarrow> bool" where
  "unchanged item repo =
     (Title item = Title repo \<and> URL item = URL repo \<and> Description item = Description repo
      \<and> Language item = Language repo \<and> LanguageColor item = LanguageColor repo
      \<and> Stars item = Stars repo \<and> Forks item = Forks repo \<and> AddStars item = AddStars repo
      \<and> Contributors item = Contributors repo)"

definition ts_unchanged :: "ts_TrendingRepoWithSummary \<Rightarrow> ts_TrendingRepo \<Rightarrow> bool" where
  "ts_unchanged item repo =
     (title item = title repo \<and> url item = url repo \<and> description item = description repo
      \<and> language item = language repo \<and> languageColor item = languageColor repo
      \<and> stars item = stars repo \<and> forks item = forks repo \<and> addStars item = addStars repo
      \<and> contributors item = contributors repo)"

text \<open>The items of the Go feed that the loop keeps: those with a separator in the title.\<close>

definition kept :: "TrendingRepo list \<Rightarrow> TrendingRepo list" where
  "kept repos = filter (\<lambda>r. CHR ''/'' \<in> set (Title r)) repos"

section \<open>Auxiliary facts\<close>

subsection \<open>Go: splitting the title, and what the loop keeps\<close>

lemma SplitN_two:
  "SplitN s sep 2 =
     (if sep \<in> set s then [takeWhile (\<lambda>c. c \<noteq> sep) s, tl (dropWhile (\<lambda>c. c \<noteq> sep) s)] else [s])"
  by (simp add: numeral_2_eq_2)

subsection \<open>Unfolding sets for evaluation on concrete inputs\<close>

lemmas go_eval = SplitN_two run_results_def run_body_def fetchReadme_def Summarize_def Marshal_def
  Let_def
  sample_def st0_def client0_def go_offline_def go_serves_def go_no_readme_def
  TrendingRepo.truncate_def maxReadmeLen_def noDescription_def summaryFailed_def promptTemplate_def
  TrimSpace_def isSpace_def kept_def unchanged_def

lemmas ts_eval = getTrendingReposWithSummary_def start_def Let_def branches_def element_def
  fetchReadme_branch_def readmeUrl_def toString_def haveReadme_def summarizeReadme_def
  withSummary_def ts_sample_def st0_def ts_serves_def ts_offline_def ts_master_only_def js_def
  ts_TrendingRepo.extend_def ts_TrendingRepo.truncate_def ts_summaryFailed_def
  ts_promptTemplate_def callback_def ts_fetchReadme_def ts_unchanged_def

lemmas color_eval = languageToColor_def TrimPrefix_def Sscanf_x_def isHexDigit_def hexVal_def
  hexDigitVal_def Let_def

lemma run_body_skip:
  "CHR ''/'' \<notin> set (Title repo) \<Longrightarrow> run_body env c repo st = (None, st)"
  by (simp add: run_body_def SplitN_two)

lemma run_body_keep:
  assumes "CHR ''/'' \<in> set (Title repo)"
  shows "\<exists>item st'. run_body env c repo st = (Some item, st') \<and> TrendingRepo.truncate item = repo"
  using assms
  by (simp add: run_body_def SplitN_two Let_def TrendingRepo.truncate_def split: prod.splits)

lemma run_loop_truncate:
  "map TrendingRepo.truncate (fst (run_loop env c repos acc st)) =
     map TrendingRepo.truncate acc @ kept repos"
proof (induction repos arbitrary: acc st)
  case Nil
  then show ?case by (simp add: kept_def)
next
  case (Cons repo repos)
  show ?case
  proof (cases "CHR ''/'' \<in> set (Title repo)")
    case True
    then obtain item st' where b: "run_body env c repo st = (Some item, st')"
      and t: "TrendingRepo.truncate item = repo"
      using run_body_keep by blast
    have "kept (repo # repos) = repo # kept repos"
      using True by (simp add: kept_def)
    then show ?thesis by (simp add: b t Cons.IH)
  next
    case False
    then have "kept (repo # repos) = kept repos"
      by (simp add: kept_def)
    then show ?thesis using False by (simp add: run_body_skip Cons.IH)
  qed
qed

lemma run_results_truncate:
  "map TrendingRepo.truncate (fst (run_results env c repos st)) = kept repos"
  by (simp add: run_results_def run_loop_truncate)

lemma map_eq_nth: "map f xs = ys \<Longrightarrow> i < length xs \<Longrightarrow> f (xs ! i) = ys ! i"
  by (metis nth_map)

subsection \<open>Go: what the calls add to the trace\<close>

lemma fetchReadme_trace:
  "trace (snd (fetchReadme env owner nm st)) = trace st @ [GetReadmeCall owner nm]"
  by (simp add: fetchReadme_def Let_def split: prod.splits option.splits)

lemma Summarize_trace:
  "trace (snd (Summarize env c readme st)) =
     trace st @ (if readme \<noteq> [] \<and> NewRequest env (BaseURL c @ ''/api/generate'')
                 then [HttpPost (BaseURL c @ ''/api/generate'')
                         (encodeRequest
                            \<lparr>OllamaRequest.Model = Model c,
                             Prompt = promptTemplate @ take maxReadmeLen readme, Stream = False\<rparr>)]
                 else [])"
  by (simp add: Summarize_def Marshal_def Let_def split: prod.splits option.splits)

subsection \<open>TypeScript: what the calls add to the trace\<close>

lemma fetchReadme_branch_trace:
  "trace (snd (fetchReadme_branch env owner nm b st)) = trace st @ [FetchCall (readmeUrl owner nm b)]"
  by (simp add: fetchReadme_branch_def Let_def split: prod.splits settled.splits ts_Response.splits)

lemma summarizeReadme_trace:
  "trace (snd (summarizeReadme env rd k st)) =
     trace st @ [GenerateContentCall k
                   \<lparr>model = js ''gemini-2.0-flash'', contents = ts_promptTemplate @ rd\<rparr>]"
  by (simp add: summarizeReadme_def Let_def
      split: prod.splits settled.splits GenerateContentResponse.splits option.splits)

lemma fetchReadme_loop_trace:
  "\<exists>more. trace (snd (fetchReadme_loop env owner nm bs st)) = trace st @ more"
proof (induction bs arbitrary: st)
  case Nil
  then show ?case by simp
next
  case (Cons b bs)
  obtain r st' where f: "fetchReadme_branch env owner nm b st = (r, st')"
    by (cases "fetchReadme_branch env owner nm b st")
  have t: "trace st' = trace st @ [FetchCall (readmeUrl owner nm b)]"
    using fetchReadme_branch_trace [of env owner nm b st] by (simp add: f)
  show ?case
  proof (cases r)
    case None
    obtain more where "trace (snd (fetchReadme_loop env owner nm bs st')) = trace st' @ more"
      using Cons.IH by blast
    then show ?thesis using None f t by simp
  next
    case (Some rd)
    then show ?thesis using f t by simp
  qed
qed

subsection \<open>TypeScript: a callback run on its own, and the promises under a schedule\<close>

lemma callback_absent:
  assumes "ts_fetchReadme env (element (split (title repo) 0x2F) 0)
             (element (split (title repo) 0x2F) 1) st = (None, st')"
  shows "callback env k repo st = (withSummary repo ts_summaryFailed, st')"
  using assms by (simp add: callback_def Let_def)

lemma callback_empty:
  assumes "ts_fetchReadme env (element (split (title repo) 0x2F) 0)
             (element (split (title repo) 0x2F) 1) st = (Some [], st')"
  shows "callback env k repo st = (withSummary repo ts_summaryFailed, st')"
  using assms by (simp add: callback_def Let_def)

text \<open>Three steps of a fresh promise, with no other promise in between, are the callback.\<close>

lemma run_alone:
  assumes "i < length promises" and "promises ! i = start repo"
    and "callback env k repo st = (item, st')"
  shows "run_schedule env k [i, i, i] promises st = (promises[i := Resolved item], st')"
  using assms
  by (auto simp: start_def callback_def ts_fetchReadme_def branches_def haveReadme_def Let_def
      split: prod.splits option.splits if_splits)

lemma truncate_withSummary: "ts_TrendingRepo.truncate (withSummary repo s) = repo"
  by (simp add: withSummary_def ts_TrendingRepo.truncate_def ts_TrendingRepo.extend_def)

lemma promise_repo_haveReadme: "promise_repo (fst (haveReadme repo readme st)) = repo"
  by (simp add: haveReadme_def truncate_withSummary split: option.splits)

lemma promise_repo_step: "promise_repo (fst (step env k t st)) = promise_repo t"
proof (cases t)
  case (AwaitFetch repo owner nm bs)
  then show ?thesis
    by (cases bs) (simp_all add: promise_repo_haveReadme split: prod.splits option.splits)
next
  case (AwaitGenerate repo rd)
  then show ?thesis by (simp add: truncate_withSummary split: prod.splits)
next
  case (Resolved item)
  then show ?thesis by simp
qed

lemma length_run_schedule: "length (fst (run_schedule env k sched promises st)) = length promises"
  by (induction sched arbitrary: promises st) (auto split: prod.splits)

lemma promise_repo_run_schedule:
  "map promise_repo (fst (run_schedule env k sched promises st)) = map promise_repo promises"
proof (induction sched arbitrary: promises st)
  case Nil
  then show ?case by simp
next
  case (Cons i sched)
  show ?case
  proof (cases "i < length promises")
    case True
    obtain t' st' where s: "step env k (promises ! i) st = (t', st')"
      by (cases "step env k (promises ! i) st")
    have "promise_repo t' = promise_repo (promises ! i)"
      using promise_repo_step [of env k "promises ! i" st] by (simp add: s)
    then have "map promise_repo (promises[i := t']) = map promise_repo promises"
      using True by (simp add: map_update list_update_same_conv)
    then show ?thesis using True by (simp add: s Cons.IH)
  next
    case False
    then show ?thesis by (simp add: Cons.IH)
  qed
qed

lemma Promise_all_truncate:
  "Promise_all promises = Some out \<Longrightarrow> map ts_TrendingRepo.truncate out = map promise_repo promises"
proof (induction promises arbitrary: out)
  case Nil
  then show ?case by simp
next
  case (Cons t promises)
  then show ?case by (cases t) (auto split: option.splits)
qed

lemma promise_repo_start: "promise_repo (start repo) = repo"
  by (simp add: start_def Let_def)

lemma map_promise_repo_start: "map promise_repo (map start repos) = repos"
  by (induction repos) (simp_all add: promise_repo_start)

text \<open>Whatever the schedule, a result of \<open>Promise.all\<close> is the input with summaries added.\<close>

lemma getTrending_truncate:
  assumes "fst (getTrendingReposWithSummary env k sched repos st) = Some out"
  shows "map ts_TrendingRepo.truncate out = repos"
proof -
  obtain promises st' where r: "run_schedule env k sched (map start repos) st = (promises, st')"
    by (cases "run_schedule env k sched (map start repos) st")
  have "Promise_all promises = Some out"
    using assms by (simp add: getTrendingReposWithSummary_def r)
  then have "map ts_TrendingRepo.truncate out = map promise_repo promises"
    by (rule Promise_all_truncate)
  also have "\<dots> = map promise_repo (map start repos)"
    using promise_repo_run_schedule [of env k sched "map start repos" st] by (simp add: r)
  finally show ?thesis by (simp only: map_promise_repo_start)
qed

subsection \<open>TypeScript: every promise resolves after three of its own steps\<close>

lemma steps_left_haveReadme: "steps_left (fst (haveReadme repo readme st)) \<le> 1"
  by (simp add: haveReadme_def split: option.splits)

lemma steps_left_step: "steps_left (fst (step env k t st)) \<le> steps_left t - 1"
proof (cases t)
  case (AwaitFetch repo owner nm bs)
  show ?thesis
  proof (cases bs)
    case Nil
    then show ?thesis using AwaitFetch by (simp add: haveReadme_def)
  next
    case (Cons b rest)
    obtain r st' where f: "fetchReadme_branch env owner nm b st = (r, st')"
      by (cases "fetchReadme_branch env owner nm b st")
    show ?thesis
    proof (cases r)
      case None
      show ?thesis
      proof (cases "rest = []")
        case True
        then show ?thesis using AwaitFetch Cons None f by (simp add: haveReadme_def)
      next
        case False
        then show ?thesis using AwaitFetch Cons None f by simp
      qed
    next
      case (Some rd)
      have "steps_left (fst (haveReadme repo (Some rd) st')) \<le> 1"
        by (rule steps_left_haveReadme)
      then show ?thesis using AwaitFetch Cons Some f by simp
    qed
  qed
next
  case (AwaitGenerate repo rd)
  then show ?thesis by (simp split: prod.splits)
next
  case (Resolved item)
  then show ?thesis by simp
qed

lemma steps_left_run_schedule:
  "i < length promises \<Longrightarrow>
   steps_left (fst (run_schedule env k sched promises st) ! i)
     \<le> steps_left (promises ! i) - count_list sched i"
proof (induction sched arbitrary: promises st)
  case Nil
  then show ?case by simp
next
  case (Cons j sched)
  show ?case
  proof (cases "j < length promises")
    case True
    obtain t' st' where s: "step env k (promises ! j) st = (t', st')"
      by (cases "step env k (promises ! j) st")
    have le: "steps_left t' \<le> steps_left (promises ! j) - 1"
      using steps_left_step [of env k "promises ! j" st] by (simp add: s)
    have "steps_left (fst (run_schedule env k sched (promises[j := t']) st') ! i)
            \<le> steps_left (promises[j := t'] ! i) - count_list sched i"
      using Cons.IH [of "promises[j := t']" st'] Cons.prems by simp
    moreover have "steps_left (promises[j := t'] ! i) - count_list sched i
            \<le> steps_left (promises ! i) - count_list (j # sched) i"
      using le Cons.prems True by (cases "i = j") auto
    ultimately show ?thesis using True by (simp add: s)
  next
    case False
    then have "i \<noteq> j" using Cons.prems by auto
    then show ?thesis using False Cons.IH [of promises st] Cons.prems by simp
  qed
qed

lemma Promise_all_done:
  "(\<And>i. i < length promises \<Longrightarrow> steps_left (promises ! i) = 0) \<Longrightarrow> Promise_all promises \<noteq> None"
proof (induction promises)
  case Nil
  then show ?case by simp
next
  case (Cons t promises)
  have "steps_left t = 0" using Cons.prems [of 0] by simp
  then obtain item where t: "t = Resolved item" by (cases t) simp_all
  have "Promise_all promises \<noteq> None"
  proof (rule Cons.IH)
    fix i assume "i < length promises"
    then show "steps_left (promises ! i) = 0" using Cons.prems [of "Suc i"] by simp
  qed
  then show ?case by (auto simp: t)
qed

lemma steps_left_start: "steps_left (start repo) = 3"
  by (simp add: start_def Let_def branches_def)

lemma getTrending_completes:
  assumes "\<And>i. i < length repos \<Longrightarrow> 3 \<le> count_list sched i"
  shows "fst (getTrendingReposWithSummary env k sched repos st) \<noteq> None"
proof -
  obtain promises st' where r: "run_schedule env k sched (map start repos) st = (promises, st')"
    by (cases "run_schedule env k sched (map start repos) st")
  have len: "length promises = length repos"
    using length_run_schedule [of env k sched "map start repos" st] by (simp add: r)
  have "Promise_all promises \<noteq> None"
  proof (rule Promise_all_done)
    fix i assume i: "i < length promises"
    have "steps_left (promises ! i) \<le> steps_left (map start repos ! i) - count_list sched i"
      using steps_left_run_schedule [of i "map start repos" env k sched st] i len by (simp add: r)
    then show "steps_left (promises ! i) = 0"
      using assms [of i] i len by (simp add: steps_left_start)
  qed
  then show ?thesis by (simp add: getTrendingReposWithSummary_def r)
qed

lemma count_list_replicate: "count_list (replicate m a) i = (if a = i then m else 0)"
  by (induction m) auto

lemma count_list_concat_replicate:
  "distinct xs \<Longrightarrow>
   count_list (concat (map (\<lambda>j. replicate m j) xs)) i = (if i \<in> set xs then m else 0)"
  by (induction xs) (auto simp: count_list_replicate)

lemma count_list_sequential: "i < n \<Longrightarrow> count_list (sequential n) i = 3"
  by (simp add: sequential_def count_list_concat_replicate)

subsection \<open>Go: an iteration that does not skip its item\<close>

lemma run_body_parts:
  assumes "SplitN (Title grepo) CHR ''/'' 2 = [owner, nm]"
    and "fetchReadme genv owner nm gst = (r, gst1)"
    and "readme = (case r of Inl err \<Rightarrow> Description grepo | Inr content \<Rightarrow> content)"
    and "Summarize genv c readme (gst1\<lparr>trace := trace gst1 @ [SummarizeCall readme]\<rparr>) = (s, gst2)"
  shows "run_body genv c grepo gst =
          (Some \<lparr>Title = Title grepo, URL = URL grepo, Description = Description grepo,
                 Language = Language grepo, LanguageColor = LanguageColor grepo,
                 Stars = Stars grepo, Forks = Forks grepo, AddStars = AddStars grepo,
                 Contributors = Contributors grepo,
                 Summary = (case s of Inl err \<Rightarrow> summaryFailed | Inr t \<Rightarrow> t)\<rparr>, gst2)"
  using assms(4) by (simp add: run_body_def assms(1,2,3))

lemma run_body_absent:
  assumes "SplitN (Title grepo) CHR ''/'' 2 = [owner, nm]"
    and "fst (fetchReadme genv owner nm gst) = Inl e"
  shows "\<exists>item gst' rest. run_body genv c grepo gst = (Some item, gst')
          \<and> TrendingRepo.truncate item = grepo
          \<and> trace gst' = trace gst @ [GetReadmeCall owner nm, SummarizeCall (Description grepo)] @ rest"
proof -
  obtain r st1 where f: "fetchReadme genv owner nm gst = (r, st1)"
    by (cases "fetchReadme genv owner nm gst")
  have r: "r = Inl e" using assms(2) by (simp add: f)
  have t1: "trace st1 = trace gst @ [GetReadmeCall owner nm]"
    using fetchReadme_trace [of genv owner nm gst] by (simp add: f)
  let ?st1 = "st1\<lparr>trace := trace st1 @ [SummarizeCall (Description grepo)]\<rparr>"
  obtain s st2 where s: "Summarize genv c (Description grepo) ?st1 = (s, st2)"
    by (cases "Summarize genv c (Description grepo) ?st1")
  obtain rest where t2: "trace st2 = trace ?st1 @ rest"
    using Summarize_trace [of genv c "Description grepo" ?st1] by (simp add: s)
  have "Description grepo = (case r of Inl err \<Rightarrow> Description grepo | Inr content \<Rightarrow> content)"
    by (simp add: r)
  note b = run_body_parts [OF assms(1) f this s]
  have "trace st2 = trace gst @ [GetReadmeCall owner nm, SummarizeCall (Description grepo)] @ rest"
    by (simp add: t2 t1)
  then show ?thesis using b by (simp add: TrendingRepo.truncate_def)
qed

subsection \<open>TypeScript: one candidate of \<open>fetchReadme\<close>\<close>

lemma fetchReadme_branch_ok:
  assumes "fetch env (readmeUrl owner nm b) (world st) = (Fulfilled (ts_Response True (Fulfilled t)), w)"
  shows "fetchReadme_branch env owner nm b st
           = (Some t, st\<lparr>world := w, trace := trace st @ [FetchCall (readmeUrl owner nm b)]\<rparr>)"
  using assms by (simp add: fetchReadme_branch_def)

lemma fetchReadme_branch_failed:
  assumes "fetch env (readmeUrl owner nm b) (world st) = (r, w)"
    and "\<And>t. r \<noteq> Fulfilled (ts_Response True (Fulfilled t))"
  shows "fetchReadme_branch env owner nm b st
           = (None, st\<lparr>world := w, trace := trace st @ [FetchCall (readmeUrl owner nm b)]\<rparr>)"
proof (cases r)
  case Rejected
  then show ?thesis using assms(1) by (simp add: fetchReadme_branch_def)
next
  case (Fulfilled resp)
  obtain ok body where resp: "resp = ts_Response ok body" by (cases resp)
  show ?thesis
  proof (cases ok)
    case False
    then show ?thesis using assms(1) Fulfilled resp by (simp add: fetchReadme_branch_def)
  next
    case True
    have "body = Rejected"
    proof (cases body)
      case Rejected
      then show ?thesis .
    next
      case (Fulfilled x)
      then show ?thesis using assms(2) [of x] \<open>r = Fulfilled resp\<close> resp True by simp
    qed
    then show ?thesis using assms(1) Fulfilled resp True by (simp add: fetchReadme_branch_def)
  qed
qed

subsection \<open>Titles with two separators\<close>

lemma two_separators:
  assumes "2 \<le> count_list t sep"
  shows "\<exists>owner seg rest. t = owner @ sep # seg @ sep # rest \<and> sep \<notin> set owner \<and> sep \<notin> set seg"
proof -
  have "sep \<in> set t"
    using assms by (metis count_list_0_iff not_numeral_le_zero)
  then obtain owner ys where t: "t = owner @ sep # ys" and o: "sep \<notin> set owner"
    by (meson split_list_first)
  have "count_list owner sep = 0" using o by simp
  then have "1 \<le> count_list ys sep" using assms t by simp
  then have "sep \<in> set ys"
    by (metis count_list_0_iff not_one_le_zero)
  then obtain seg rest where ys: "ys = seg @ sep # rest" and s: "sep \<notin> set seg"
    by (meson split_list_first)
  show ?thesis using t ys o s by blast
qed

lemma SplitN_first:
  assumes "sep \<notin> set owner"
  shows "SplitN (owner @ sep # ys) sep 2 = [owner, ys]"
proof -
  have "takeWhile (\<lambda>c. c \<noteq> sep) (owner @ sep # ys) = owner"
    using assms by (induction owner) auto
  moreover have "dropWhile (\<lambda>c. c \<noteq> sep) (owner @ sep # ys) = sep # ys"
    using assms by (induction owner) auto
  ultimately show ?thesis by (simp add: SplitN_two)
qed

lemma split_not_Nil: "split s sep \<noteq> []"
  by (induction s) (auto split: list.splits)

lemma split_first:
  assumes "sep \<notin> set owner"
  shows "split (owner @ sep # ys) sep = owner # split ys sep"
  using assms by (induction owner) auto

lemma split_two:
  assumes "sep \<notin> set owner" and "sep \<notin> set seg"
  shows "element (split (owner @ sep # seg @ sep # rest) sep) 0 = Some owner"
    and "element (split (owner @ sep # seg @ sep # rest) sep) 1 = Some seg"
  using assms by (simp_all add: split_first element_def)

lemma ts_fetchReadme_first_call:
  "\<exists>more. trace (snd (ts_fetchReadme env owner nm st))
            = trace st @ FetchCall (readmeUrl owner nm (js ''main'')) # more"
proof -
  obtain r st1 where f: "fetchReadme_branch env owner nm (js ''main'') st = (r, st1)"
    by (cases "fetchReadme_branch env owner nm (js ''main'') st")
  have t1: "trace st1 = trace st @ [FetchCall (readmeUrl owner nm (js ''main''))]"
    using fetchReadme_branch_trace [of env owner nm "js ''main''" st] by (simp add: f)
  show ?thesis
  proof (cases r)
    case None
    obtain more where "trace (snd (fetchReadme_loop env owner nm [js ''master''] st1)) = trace st1 @ more"
      using fetchReadme_loop_trace by blast
    then show ?thesis using None f t1 by (simp add: ts_fetchReadme_def branches_def)
  next
    case (Some rd)
    then show ?thesis using f t1 by (simp add: ts_fetchReadme_def branches_def)
  qed
qed

lemma callback_first_call:
  assumes "element (split (title repo) 0x2F) 0 = owner" and "element (split (title repo) 0x2F) 1 = nm"
  shows "\<exists>more. trace (snd (callback env k repo st))
            = trace st @ FetchCall (readmeUrl owner nm (js ''main'')) # more"
proof -
  obtain readme st1 where f: "ts_fetchReadme env owner nm st = (readme, st1)"
    by (cases "ts_fetchReadme env owner nm st")
  obtain m1 where t1: "trace st1 = trace st @ FetchCall (readmeUrl owner nm (js ''main'')) # m1"
    using ts_fetchReadme_first_call [of env owner nm st] by (auto simp: f)
  show ?thesis
  proof (cases "readme = None \<or> readme = Some []")
    case True
    then have "callback env k repo st = (withSummary repo ts_summaryFailed, st1)"
      using assms f by (auto simp: callback_def Let_def)
    then show ?thesis using t1 by simp
  next
    case False
    then obtain rd where rd: "readme = Some rd" "rd \<noteq> []" by auto
    let ?st1 = "st1\<lparr>trace := trace st1 @ [SummarizeReadmeCall rd]\<rparr>"
    obtain s st2 where s: "summarizeReadme env rd k ?st1 = (s, st2)"
      by (cases "summarizeReadme env rd k ?st1")
    have t2: "trace st2 = trace ?st1 @ [GenerateContentCall k
                   \<lparr>model = js ''gemini-2.0-flash'', contents = ts_promptTemplate @ rd\<rparr>]"
      using summarizeReadme_trace [of env rd k ?st1] by (simp add: s)
    have "callback env k repo st = (withSummary repo s, st2)"
      using assms f rd s by (simp add: callback_def Let_def)
    then show ?thesis using t1 t2 by simp
  qed
qed

lemma truncate_callback: "ts_TrendingRepo.truncate (fst (callback env k repo st)) = repo"
  by (simp add: callback_def Let_def truncate_withSummary split: prod.splits option.splits)


lemma go_two_separators:
  assumes "2 \<le> count_list (Title grepo) CHR ''/''"
  shows "\<exists>owner seg rest item gst' more.
         Title grepo = owner @ CHR ''/'' # seg @ CHR ''/'' # rest
         \<and> CHR ''/'' \<notin> set owner \<and> CHR ''/'' \<notin> set seg
         \<and> run_body genv c grepo gst = (Some item, gst')
         \<and> TrendingRepo.truncate item = grepo
         \<and> trace gst' = trace gst @ GetReadmeCall owner (seg @ CHR ''/'' # rest) # more
         \<and> seg @ CHR ''/'' # rest \<noteq> seg"
proof -
  obtain owner seg rest
    where t: "Title grepo = owner @ CHR ''/'' # seg @ CHR ''/'' # rest"
      and o: "CHR ''/'' \<notin> set owner" and s: "CHR ''/'' \<notin> set seg"
    using two_separators [OF assms] by blast
  have sp: "SplitN (Title grepo) CHR ''/'' 2 = [owner, seg @ CHR ''/'' # rest]"
    using o by (simp add: t SplitN_first)
  obtain r st1 where f: "fetchReadme genv owner (seg @ CHR ''/'' # rest) gst = (r, st1)"
    by (cases "fetchReadme genv owner (seg @ CHR ''/'' # rest) gst")
  have t1: "trace st1 = trace gst @ [GetReadmeCall owner (seg @ CHR ''/'' # rest)]"
    using fetchReadme_trace [of genv owner "seg @ CHR ''/'' # rest" gst] by (simp add: f)
  define readme where "readme = (case r of Inl err \<Rightarrow> Description grepo | Inr content \<Rightarrow> content)"
  define st1' where "st1' = st1\<lparr>trace := trace st1 @ [SummarizeCall readme]\<rparr>"
  obtain sm st2 where sm: "Summarize genv c readme st1' = (sm, st2)"
    by (cases "Summarize genv c readme st1'")
  obtain m2 where t2: "trace st2 = trace st1' @ m2"
    using Summarize_trace [of genv c readme st1'] by (simp add: sm)
  define item where "item = \<lparr>Title = Title grepo, URL = URL grepo, Description = Description grepo,
                 Language = Language grepo, LanguageColor = LanguageColor grepo,
                 Stars = Stars grepo, Forks = Forks grepo, AddStars = AddStars grepo,
                 Contributors = Contributors grepo,
                 Summary = (case sm of Inl err \<Rightarrow> summaryFailed | Inr x \<Rightarrow> x)\<rparr>"
  have rb: "run_body genv c grepo gst = (Some item, st2)"
    using sm by (simp add: run_body_def sp f item_def readme_def st1'_def)
  have tr: "TrendingRepo.truncate item = grepo"
    by (simp add: item_def TrendingRepo.truncate_def)
  have tt: "trace st2 = trace gst @ GetReadmeCall owner (seg @ CHR ''/'' # rest) # (SummarizeCall readme # m2)"
    by (simp add: t2 t1 st1'_def)
  show ?thesis
    apply (rule exI [of _ owner], rule exI [of _ seg], rule exI [of _ rest], rule exI [of _ item],
        rule exI [of _ st2], rule exI [of _ "SummarizeCall readme # m2"])
    using t o s rb tr tt by simp
qed


lemma ts_two_separators:
  assumes "2 \<le> count_list (title repo) 0x2F"
  shows "\<exists>owner seg rest more.
         title repo = owner @ 0x2F # seg @ 0x2F # rest
         \<and> 0x2F \<notin> set owner \<and> 0x2F \<notin> set seg
         \<and> start repo = AwaitFetch repo (Some owner) (Some seg) branches
         \<and> ts_TrendingRepo.truncate (fst (callback env k repo st)) = repo
         \<and> trace (snd (callback env k repo st))
             = trace st @ FetchCall (readmeUrl (Some owner) (Some seg) (js ''main'')) # more"
proof -
  obtain owner seg rest
    where t: "title repo = owner @ 0x2F # seg @ 0x2F # rest"
      and o: "0x2F \<notin> set owner" and s: "0x2F \<notin> set seg"
    using two_separators [OF assms] by blast
  have e0: "element (split (title repo) 0x2F) 0 = Some owner"
    unfolding t using o s by (rule split_two(1))
  have e1: "element (split (title repo) 0x2F) 1 = Some seg"
    unfolding t using o s by (rule split_two(2))
  have st: "start repo = AwaitFetch repo (Some owner) (Some seg) branches"
    by (simp add: start_def Let_def e0 e1 [unfolded One_nat_def])
  obtain more where m: "trace (snd (callback env k repo st))
             = trace st @ FetchCall (readmeUrl (Some owner) (Some seg) (js ''main'')) # more"
    using callback_first_call [OF e0 e1] by blast
  have tr: "ts_TrendingRepo.truncate (fst (callback env k repo st)) = repo"
    by (rule truncate_callback)
  show ?thesis
    apply (rule exI [of _ owner], rule exI [of _ seg], rule exI [of _ rest], rule exI [of _ more])
    using t o s st tr m by simp
qed

subsection \<open>TypeScript: a resolved promise has a summary that is not empty\<close>

lemma summarizeReadme_nonempty: "fst (summarizeReadme env rd k st) \<noteq> []"
  by (simp add: summarizeReadme_def Let_def ts_summaryFailed_def
      split: prod.splits settled.splits GenerateContentResponse.splits option.splits)

lemma summary_withSummary: "summary (withSummary repo s) = s"
  by (simp add: withSummary_def ts_TrendingRepo.extend_def)

lemma resolved_haveReadme:
  "fst (haveReadme repo readme st) = Resolved item \<Longrightarrow> summary item \<noteq> []"
  by (auto simp: haveReadme_def summary_withSummary ts_summaryFailed_def split: option.splits if_splits)

lemma resolved_step:
  assumes "fst (step env k t st) = Resolved item"
    and "\<And>i. t = Resolved i \<Longrightarrow> summary i \<noteq> []"
  shows "summary item \<noteq> []"
proof (cases t)
  case (AwaitFetch repo owner nm bs)
  show ?thesis
  proof (cases bs)
    case Nil
    then show ?thesis using assms(1) AwaitFetch resolved_haveReadme [of repo None st item] by simp
  next
    case (Cons b rest)
    obtain r st' where f: "fetchReadme_branch env owner nm b st = (r, st')"
      by (cases "fetchReadme_branch env owner nm b st")
    show ?thesis
    proof (cases r)
      case None
      then show ?thesis
        using assms(1) AwaitFetch Cons f resolved_haveReadme [of repo None st' item]
        by (cases "rest = []") simp_all
    next
      case (Some rd)
      then show ?thesis
        using assms(1) AwaitFetch Cons f resolved_haveReadme [of repo "Some rd" st' item] by simp
    qed
  qed
next
  case (AwaitGenerate repo rd)
  obtain s st' where s: "summarizeReadme env rd k st = (s, st')"
    by (cases "summarizeReadme env rd k st")
  have "s \<noteq> []" using summarizeReadme_nonempty [of env rd k st] by (simp add: s)
  then show ?thesis using assms(1) AwaitGenerate s by (auto simp: summary_withSummary)
next
  case (Resolved i)
  then show ?thesis using assms by simp
qed

lemma resolved_run_schedule:
  assumes "\<And>i. Resolved i \<in> set promises \<Longrightarrow> summary i \<noteq> []"
    and "Resolved item \<in> set (fst (run_schedule env k sched promises st))"
  shows "summary item \<noteq> []"
  using assms
proof (induction sched arbitrary: promises st)
  case Nil
  then show ?case by simp
next
  case (Cons j sched)
  show ?case
  proof (cases "j < length promises")
    case True
    obtain t' st' where s: "step env k (promises ! j) st = (t', st')"
      by (cases "step env k (promises ! j) st")
    have inv: "summary i \<noteq> []" if "Resolved i \<in> set (promises[j := t'])" for i
    proof (cases "Resolved i = t'")
      case True
      have "fst (step env k (promises ! j) st) = Resolved i"
        using s True by simp
      moreover have "summary i' \<noteq> []" if "promises ! j = Resolved i'" for i'
        using Cons.prems(1) [of i'] that \<open>j < length promises\<close> nth_mem [of j promises] by simp
      ultimately show ?thesis by (rule resolved_step)
    next
      case False
      have "set (promises[j := t']) \<subseteq> insert t' (set promises)"
        by (rule set_update_subset_insert)
      then have "Resolved i \<in> set promises" using that False by auto
      then show ?thesis by (rule Cons.prems(1))
    qed
    have "Resolved item \<in> set (fst (run_schedule env k sched (promises[j := t']) st'))"
      using Cons.prems(2) True by (simp add: s)
    with inv show ?thesis by (rule Cons.IH)
  next
    case False
    have "Resolved item \<in> set (fst (run_schedule env k sched promises st))"
      using Cons.prems(2) False by simp
    with Cons.prems(1) show ?thesis by (rule Cons.IH)
  qed
qed

lemma Promise_all_set:
  "Promise_all promises = Some out \<Longrightarrow> item \<in> set out \<Longrightarrow> Resolved item \<in> set promises"
proof (induction promises arbitrary: out)
  case Nil
  then show ?case by simp
next
  case (Cons t promises)
  then show ?case by (cases t) (auto split: option.splits)
qed

lemma getTrending_summary_nonempty:
  assumes "fst (getTrendingReposWithSummary env k sched repos st) = Some out"
    and "item \<in> set out"
  shows "summary item \<noteq> []"
proof -
  obtain promises st' where r: "run_schedule env k sched (map start repos) st = (promises, st')"
    by (cases "run_schedule env k sched (map start repos) st")
  have "Promise_all promises = Some out"
    using assms(1) by (simp add: getTrendingReposWithSummary_def r)
  then have "Resolved item \<in> set promises"
    using assms(2) by (rule Promise_all_set)
  then have m: "Resolved item \<in> set (fst (run_schedule env k sched (map start repos) st))"
    by (simp add: r)
  have init: "summary i \<noteq> []" if "Resolved i \<in> set (map start repos)" for i
    using that by (auto simp: start_def Let_def)
  show ?thesis
    using init m by (rule resolved_run_schedule)
qed

subsection \<open>Go: colours written with hexadecimal digits\<close>

lemma hexDigitVal_range: "isHexDigit c \<Longrightarrow> 0 \<le> hexDigitVal c \<and> hexDigitVal c < 16"
  by (auto simp: isHexDigit_def hexDigitVal_def Let_def)

lemma foldl_hex_range:
  assumes "\<forall>c\<in>set ds. isHexDigit c" and "0 \<le> acc"
  shows "0 \<le> foldl (\<lambda>a c. 16 * a + hexDigitVal c) acc ds
       \<and> foldl (\<lambda>a c. 16 * a + hexDigitVal c) acc ds < (acc + 1) * 16 ^ length ds"
  using assms
proof (induction ds arbitrary: acc)
  case Nil
  then show ?case by simp
next
  case (Cons d ds)
  have d: "0 \<le> hexDigitVal d" "hexDigitVal d < 16"
    using Cons.prems(1) hexDigitVal_range [of d] by simp_all
  have a: "0 \<le> 16 * acc + hexDigitVal d" using d Cons.prems(2) by simp
  have ih: "0 \<le> foldl (\<lambda>a c. 16 * a + hexDigitVal c) (16 * acc + hexDigitVal d) ds
       \<and> foldl (\<lambda>a c. 16 * a + hexDigitVal c) (16 * acc + hexDigitVal d) ds
           < (16 * acc + hexDigitVal d + 1) * 16 ^ length ds"
    using Cons.IH [of "16 * acc + hexDigitVal d"] Cons.prems(1) a by simp
  have "16 * acc + hexDigitVal d + 1 \<le> (acc + 1) * 16" using d by simp
  then have "(16 * acc + hexDigitVal d + 1) * 16 ^ length ds \<le> ((acc + 1) * 16) * 16 ^ length ds"
    by (intro mult_right_mono) simp_all
  also have "\<dots> = (acc + 1) * 16 ^ length (d # ds)"
    by simp
  finally have le: "(16 * acc + hexDigitVal d + 1) * 16 ^ length ds \<le> (acc + 1) * 16 ^ length (d # ds)" .
  have "foldl (\<lambda>a c. 16 * a + hexDigitVal c) acc (d # ds)
          = foldl (\<lambda>a c. 16 * a + hexDigitVal c) (16 * acc + hexDigitVal d) ds"
    by simp
  then show ?case using ih le by linarith
qed

lemma languageToColor_hex:
  assumes "ds \<noteq> []" and "\<forall>c\<in>set ds. isHexDigit c" and "length ds \<le> 15"
  shows "languageToColor (CHR ''#'' # ds) = hexVal ds"
proof -
  obtain d rest where ds: "ds = d # rest" using assms(1) by (cases ds) auto
  have hd: "isHexDigit d" using assms(2) ds by simp
  then have nb: "d \<notin> {CHR '' '', CHR 0x09, CHR 0x0B, CHR 0x0C, CHR 0x0D}"
    and ns: "d \<noteq> CHR ''+''" "d \<noteq> CHR ''-''"
    by (auto simp: isHexDigit_def Let_def)
  have tw: "takeWhile isHexDigit ds = ds"
    using assms(2) by (simp add: takeWhile_eq_all_conv)
  have r: "0 \<le> hexVal ds \<and> hexVal ds < 16 ^ length ds"
    using foldl_hex_range [of ds 0] assms(2) by (simp add: hexVal_def)
  have "(16::int) ^ length ds \<le> 16 ^ 15"
    using assms(3) by (intro power_increasing) simp_all
  then have "hexVal ds < 2 ^ 63" using r by simp
  then have "Sscanf_x ds = Some (hexVal ds)"
    using r nb ns tw ds by (simp add: Sscanf_x_def Let_def)
  then show ?thesis by (simp add: languageToColor_def TrimPrefix_def)
qed

lemma languageToColor_empty: "languageToColor [] = 0x7289DA"
  by (simp add: languageToColor_def)

text \<open>The callbacks run one after the other: every one of them resolves.\<close>

lemma getTrending_sequential:
  "fst (getTrendingReposWithSummary env k (sequential (length repos)) repos st) \<noteq> None"
  by (rule getTrending_completes) (simp add: count_list_sequential)

subsection \<open>Go: the length of the encoded request\<close>

lemma length_escapeByte: "length (escapeByte b) \<le> 6"
  by (simp add: escapeByte_def)

lemma length_escapeString: "length (escapeString s) \<le> 6 * length s"
proof (induction s rule: escapeString.induct)
  case 1
  then show ?case by simp
next
  case (2 b bs)
  show ?case
  proof (cases "(of_char b :: nat) < 0x80")
    case True
    have "length (escapeString bs) \<le> 6 * length bs"
      using True by (rule "2.IH"(1))
    then show ?thesis
      using True length_escapeByte [of b] by simp
  next
    case False
    obtain c sz where d: "DecodeRuneInString (b # bs) = (c, sz)"
      by (cases "DecodeRuneInString (b # bs)")
    show ?thesis
    proof (cases "c = RuneError \<and> sz = 1")
      case True
      have "length (escapeString bs) \<le> 6 * length bs"
        using False d [symmetric] True by (rule "2.IH"(2))
      then show ?thesis using False d True by simp
    next
      case ne: False
      show ?thesis
      proof (cases "c = 0x2028 \<or> c = 0x2029")
        case True
        have "length (escapeString (drop (sz - 1) bs)) \<le> 6 * length (drop (sz - 1) bs)"
          using False d [symmetric] ne True by (rule "2.IH"(3))
        then show ?thesis using False d ne True by auto
      next
        case other: False
        have "length (escapeString (drop (sz - 1) bs)) \<le> 6 * length (drop (sz - 1) bs)"
          using False d [symmetric] ne other by (rule "2.IH"(4))
        then show ?thesis using False d ne other by (auto simp add: min_def)
      qed
    qed
  qed
qed

lemma escapeString_ascii:
  assumes "(of_char b :: nat) < 0x80"
  shows "escapeString (replicate n b @ r) = concat (replicate n (escapeByte b)) @ escapeString r"
  using assms by (induction n) simp_all

lemma escapeString_template:
  "length (escapeString (promptTemplate @ r)) = 82 + length (escapeString r)"
  by (simp add: promptTemplate_def DecodeRuneInString_def first_byte_def inRange_def RuneError_def
      escapeByte_def htmlSafe_def)

lemma length_encodeRequest:
  "length (encodeRequest \<lparr>OllamaRequest.Model = m, Prompt = promptTemplate @ r, Stream = False\<rparr>)
     = 121 + length (escapeString m) + length (escapeString r)"
  by (simp add: encodeRequest_def appendString_def escapeString_template)

lemma length_concat_replicate: "length (concat (replicate n xs)) = n * length xs"
  by (induction n) simp_all

section \<open>The claims\<close>

subsection \<open>C1: items without a separator\<close>

text \<open>
  Claim C1 says that an item whose title has no \<open>/\<close> is left out of the output, and an
  item with one is kept. The Go loop does so: by \<open>run_results_truncate\<close> its results
  are the items of \<open>kept\<close>, in order. The TypeScript pipeline has no such test. Below it
  is run on the feed of the single item \<open>bad\<close>, with every fetch rejected: the item is in
  the result, after two fetches for the repository \<open>bad/undefined\<close>.
\<close>

theorem C1_ts_keeps_item_without_separator:
  "0x2F \<notin> set (title (ts_sample ''bad'' ''x''))
   \<and> getTrendingReposWithSummary ts_offline [] [0, 0] [ts_sample ''bad'' ''x''] st0
       = (Some [withSummary (ts_sample ''bad'' ''x'') ts_summaryFailed],
          \<lparr>world = (),
           trace = [FetchCall (js ''https://raw.githubusercontent.com/bad/undefined/main/README.md''),
                    FetchCall (js ''https://raw.githubusercontent.com/bad/undefined/master/README.md'')]\<rparr>)"
  by (simp add: ts_eval)

subsection \<open>C2: no documentation retrieved\<close>

text \<open>
  Claim C2, as amended. In Go, when the title splits into owner and name and
  \<open>fetchReadme\<close> returns an error, the iteration calls \<open>Summarize\<close> with the item's
  description right after the fetch, and appends the item. In TypeScript, when
  \<open>fetchReadme\<close> returns \<open>null\<close>, the callback returns the item with the placeholder
  summary and leaves the state as the fetch left it: \<open>summarizeReadme\<close> is not called.
\<close>

theorem C2_absent_readme:
  "(SplitN (Title grepo) CHR ''/'' 2 = [owner, nm] \<and> fst (fetchReadme genv owner nm gst) = Inl e
      \<longrightarrow> (\<exists>item gst' rest. run_body genv c grepo gst = (Some item, gst')
             \<and> TrendingRepo.truncate item = grepo
             \<and> trace gst' = trace gst @ [GetReadmeCall owner nm, SummarizeCall (Description grepo)] @ rest))
   \<and> (ts_fetchReadme env (element (split (title repo) 0x2F) 0)
          (element (split (title repo) 0x2F) 1) st = (None, st')
      \<longrightarrow> callback env k repo st = (withSummary repo ts_summaryFailed, st'))"
  using run_body_absent callback_absent by blast

theorem C2_absent_readme_witness:
  "SplitN (Title (sample ''a/b'' ''foo'' [])) CHR ''/'' 2 = [''a'', ''b'']
   \<and> fst (fetchReadme (go_no_readme ''ok'') ''a'' ''b'' st0) = Inl GetReadmeError
   \<and> (\<exists>item gst' rest.
         run_body (go_no_readme ''ok'') client0 (sample ''a/b'' ''foo'' []) st0 = (Some item, gst')
         \<and> TrendingRepo.truncate item = sample ''a/b'' ''foo'' []
         \<and> trace gst' = trace st0 @ [GetReadmeCall ''a'' ''b'',
                                      SummarizeCall (Description (sample ''a/b'' ''foo'' []))] @ rest)
   \<and> trace (snd (run_body (go_no_readme ''ok'') client0 (sample ''a/b'' ''foo'' []) st0))
       = [GetReadmeCall ''a'' ''b'', SummarizeCall ''foo'',
          HttpPost ''http://localhost:11434/api/generate''
            (encodeRequest
               \<lparr>OllamaRequest.Model = ''m'', Prompt = promptTemplate @ ''foo'', Stream = False\<rparr>)]
   \<and> ts_fetchReadme ts_offline (element (split (title (ts_sample ''a/b'' ''foo'')) 0x2F) 0)
          (element (split (title (ts_sample ''a/b'' ''foo'')) 0x2F) 1) st0
        = (None, \<lparr>world = (),
                  trace = [FetchCall (js ''https://raw.githubusercontent.com/a/b/main/README.md''),
                           FetchCall (js ''https://raw.githubusercontent.com/a/b/master/README.md'')]\<rparr>)
   \<and> callback ts_offline [] (ts_sample ''a/b'' ''foo'') st0
        = (withSummary (ts_sample ''a/b'' ''foo'') ts_summaryFailed,
           \<lparr>world = (),
            trace = [FetchCall (js ''https://raw.githubusercontent.com/a/b/main/README.md''),
                     FetchCall (js ''https://raw.githubusercontent.com/a/b/master/README.md'')]\<rparr>)"
proof -
  let ?t1 = "\<lparr>world = (),
              trace = [FetchCall (js ''https://raw.githubusercontent.com/a/b/main/README.md''),
                       FetchCall (js ''https://raw.githubusercontent.com/a/b/master/README.md'')]\<rparr>
             :: (unit, ts_event) exec"
  have h1: "SplitN (Title (sample ''a/b'' ''foo'' [])) CHR ''/'' 2 = [''a'', ''b'']"
    by (simp add: sample_def SplitN_two)
  have h2: "fst (fetchReadme (go_no_readme ''ok'') ''a'' ''b'' st0) = Inl GetReadmeError"
    by (simp add: go_eval)
  have h3: "ts_fetchReadme ts_offline (element (split (title (ts_sample ''a/b'' ''foo'')) 0x2F) 0)
          (element (split (title (ts_sample ''a/b'' ''foo'')) 0x2F) 1) st0 = (None, ?t1)"
    by (simp add: ts_eval)
  have e: "trace (snd (run_body (go_no_readme ''ok'') client0 (sample ''a/b'' ''foo'' []) st0))
       = [GetReadmeCall ''a'' ''b'', SummarizeCall ''foo'',
          HttpPost ''http://localhost:11434/api/generate''
            (encodeRequest
               \<lparr>OllamaRequest.Model = ''m'', Prompt = promptTemplate @ ''foo'', Stream = False\<rparr>)]"
    by (simp add: go_eval)
  note T = C2_absent_readme [of "sample ''a/b'' ''foo'' []" "''a''" "''b''" "go_no_readme ''ok''" st0
        GetReadmeError client0 ts_offline "ts_sample ''a/b'' ''foo''" st0 ?t1 "[]"]
  from T h1 h2 h3 e show ?thesis by blast
qed

text \<open>
  Claim C2 as stated fails on the TypeScript pipeline. For the item \<open>a/b\<close> with the
  description \<open>foo\<close> and every fetch rejected, \<open>fetchReadme\<close> reports absence, the item is
  in the result with the placeholder summary, and the trace holds the two fetches only:
  nothing was summarized, with the description or otherwise.
\<close>

theorem C2_ts_absent_readme_counterexample:
  "fst (ts_fetchReadme ts_offline (Some (js ''a'')) (Some (js ''b'')) st0) = None
   \<and> getTrendingReposWithSummary ts_offline [] [0, 0] [ts_sample ''a/b'' ''foo''] st0
       = (Some [withSummary (ts_sample ''a/b'' ''foo'') ts_summaryFailed],
          \<lparr>world = (),
           trace = [FetchCall (js ''https://raw.githubusercontent.com/a/b/main/README.md''),
                    FetchCall (js ''https://raw.githubusercontent.com/a/b/master/README.md'')]\<rparr>)"
  by (simp add: ts_eval)

subsection \<open>C3: the summary is never empty\<close>

text \<open>
  Claim C3 says that the summary of every output item is not empty, whatever the
  backend returns. The TypeScript pipeline keeps to it (\<open>getTrending_summary_nonempty\<close>).
  The Go \<open>Summarize\<close> tests the response for emptiness before it trims it: below, a
  README is found, the backend answers 200 with a single line feed, and the item is
  appended with the empty summary.
\<close>

theorem C3_go_blank_answer_gives_empty_summary:
  "fst (run_results (go_serves ''# readme'' [CHR 0x0A]) client0 [sample ''a/b'' ''foo'' []] st0)
     = [\<lparr>Title = ''a/b'', URL = ''https://github.com/a/b'', Description = ''foo'',
         Language = ''Go'', LanguageColor = [], Stars = ''10'', Forks = ''1'',
         AddStars = ''2'', Contributors = [], Summary = []\<rparr>]"
  by (simp add: go_eval)

subsection \<open>C4: the order of the output\<close>

text \<open>
  Claim C4. The output of the enrichment keeps the order of the input. In Go the
  results, with their summaries taken off, are the kept items of the feed in the order
  of the feed. In TypeScript, under every schedule of the callbacks' steps (so whatever
  the order in which they complete), a result of \<open>Promise.all\<close> is, summaries taken off,
  the feed itself; and there is a result as soon as every callback has had three steps.
\<close>

theorem C4_enrichment_preserves_input_order:
  "map TrendingRepo.truncate (fst (run_results genv c grepos gst)) = kept grepos
   \<and> (\<forall>sched out. fst (getTrendingReposWithSummary env k sched repos st) = Some out
         \<longrightarrow> map ts_TrendingRepo.truncate out = repos)
   \<and> ((\<forall>i<length repos. 3 \<le> count_list sched' i)
         \<longrightarrow> fst (getTrendingReposWithSummary env k sched' repos st) \<noteq> None)"
proof (intro conjI allI impI)
  show "map TrendingRepo.truncate (fst (run_results genv c grepos gst)) = kept grepos"
    by (rule run_results_truncate)
next
  fix sched out
  assume "fst (getTrendingReposWithSummary env k sched repos st) = Some out"
  then show "map ts_TrendingRepo.truncate out = repos"
    by (rule getTrending_truncate)
next
  assume "\<forall>i<length repos. 3 \<le> count_list sched' i"
  then show "fst (getTrendingReposWithSummary env k sched' repos st) \<noteq> None"
    by (intro getTrending_completes) simp
qed

theorem C4_enrichment_preserves_input_order_witness:
  "map TrendingRepo.truncate
     (fst (run_results (go_no_readme ''ok'') client0
             [sample ''a/b'' ''foo'' [], sample ''bad'' ''x'' [], sample ''c/d'' ''y'' []] st0))
     = [sample ''a/b'' ''foo'' [], sample ''c/d'' ''y'' []]
   \<and> fst (getTrendingReposWithSummary (ts_serves (js ''hi'')) [] [1, 0, 1, 0]
            [ts_sample ''bad'' ''x'', ts_sample ''a/b'' ''foo''] st0)
       = Some [withSummary (ts_sample ''bad'' ''x'') (js ''ok''),
               withSummary (ts_sample ''a/b'' ''foo'') (js ''ok'')]
   \<and> map ts_TrendingRepo.truncate
         [withSummary (ts_sample ''bad'' ''x'') (js ''ok''),
          withSummary (ts_sample ''a/b'' ''foo'') (js ''ok'')]
       = [ts_sample ''bad'' ''x'', ts_sample ''a/b'' ''foo'']
   \<and> length [ts_sample ''bad'' ''x'', ts_sample ''a/b'' ''foo''] = 2
   \<and> 3 \<le> count_list [1, 1, 0, 1, 0, 0] (0::nat)
   \<and> 3 \<le> count_list [1, 1, 0, 1, 0, 0] (1::nat)
   \<and> fst (getTrendingReposWithSummary ts_offline [] [1, 1, 0, 1, 0, 0]
            [ts_sample ''bad'' ''x'', ts_sample ''a/b'' ''foo''] st0) \<noteq> None"
proof -
  have h1: "fst (getTrendingReposWithSummary (ts_serves (js ''hi'')) [] [1, 0, 1, 0]
            [ts_sample ''bad'' ''x'', ts_sample ''a/b'' ''foo''] st0)
       = Some [withSummary (ts_sample ''bad'' ''x'') (js ''ok''),
               withSummary (ts_sample ''a/b'' ''foo'') (js ''ok'')]"
    by (simp add: ts_eval)
  have h2: "\<forall>i<length [ts_sample ''bad'' ''x'', ts_sample ''a/b'' ''foo''].
              3 \<le> count_list [1, 1, 0, 1, 0, 0] i"
    by (simp add: less_Suc_eq)
  have g: "kept [sample ''a/b'' ''foo'' [], sample ''bad'' ''x'' [], sample ''c/d'' ''y'' []]
           = [sample ''a/b'' ''foo'' [], sample ''c/d'' ''y'' []]"
    by (simp add: kept_def sample_def)
  note A = C4_enrichment_preserves_input_order
      [of "go_no_readme ''ok''" client0
          "[sample ''a/b'' ''foo'' [], sample ''bad'' ''x'' [], sample ''c/d'' ''y'' []]" st0
          "ts_serves (js ''hi'')" "[]" "[ts_sample ''bad'' ''x'', ts_sample ''a/b'' ''foo'']" st0
          "[]"]
  note B = C4_enrichment_preserves_input_order
      [of "go_no_readme ''ok''" client0 "[]" st0
          ts_offline "[]" "[ts_sample ''bad'' ''x'', ts_sample ''a/b'' ''foo'']" st0
          "[1, 1, 0, 1, 0, 0]"]
  from A g have a1: "map TrendingRepo.truncate
     (fst (run_results (go_no_readme ''ok'') client0
             [sample ''a/b'' ''foo'' [], sample ''bad'' ''x'' [], sample ''c/d'' ''y'' []] st0))
     = [sample ''a/b'' ''foo'' [], sample ''c/d'' ''y'' []]"
    by simp
  from A h1 have a2: "map ts_TrendingRepo.truncate
         [withSummary (ts_sample ''bad'' ''x'') (js ''ok''),
          withSummary (ts_sample ''a/b'' ''foo'') (js ''ok'')]
       = [ts_sample ''bad'' ''x'', ts_sample ''a/b'' ''foo'']"
    by blast
  from B h2 have a3: "fst (getTrendingReposWithSummary ts_offline [] [1, 1, 0, 1, 0, 0]
            [ts_sample ''bad'' ''x'', ts_sample ''a/b'' ''foo''] st0) \<noteq> None"
    by blast
  from a1 h1 a2 a3 show ?thesis by simp
qed

subsection \<open>C5: the empty input text\<close>

text \<open>
  Claim C5, as amended. The Go \<open>Summarize\<close> on the empty text returns the "no
  description" placeholder and leaves world and trace as they are: no request is sent.
  So an item for which the text handed to \<open>Summarize\<close> is empty (the README found is
  empty, or the fetch fails and the description is empty) gets that summary, and the
  trace of its iteration ends with the call of \<open>Summarize\<close>. In TypeScript, when
  the README fetched is the empty string, the callback returns the item with the
  "summarization failed" placeholder and leaves the state as the fetch left it:
  \<open>summarizeReadme\<close> is not called and no request is sent.
\<close>

theorem C5_empty_text:
  "Summarize genv c [] gst = (Inr noDescription, gst)
   \<and> (SplitN (Title grepo) CHR ''/'' 2 = [owner, nm]
        \<and> fetchReadme genv owner nm gst = (r, gst1)
        \<and> (case r of Inl err \<Rightarrow> Description grepo | Inr content \<Rightarrow> content) = []
      \<longrightarrow> (\<exists>item. run_body genv c grepo gst
                     = (Some item, gst1\<lparr>trace := trace gst1 @ [SummarizeCall []]\<rparr>)
                  \<and> Summary item = noDescription))
   \<and> (ts_fetchReadme env (element (split (title repo) 0x2F) 0)
          (element (split (title repo) 0x2F) 1) st = (Some [], st')
      \<longrightarrow> callback env k repo st = (withSummary repo ts_summaryFailed, st'))"
proof (intro conjI impI)
  show "Summarize genv c [] gst = (Inr noDescription, gst)"
    by (simp add: Summarize_def)
next
  assume a: "SplitN (Title grepo) CHR ''/'' 2 = [owner, nm]
        \<and> fetchReadme genv owner nm gst = (r, gst1)
        \<and> (case r of Inl err \<Rightarrow> Description grepo | Inr content \<Rightarrow> content) = []"
  let ?st = "gst1\<lparr>trace := trace gst1 @ [SummarizeCall []]\<rparr>"
  have s: "Summarize genv c [] ?st = (Inr noDescription, ?st)"
    by (simp add: Summarize_def)
  have a1: "SplitN (Title grepo) CHR ''/'' 2 = [owner, nm]"
    and a2: "fetchReadme genv owner nm gst = (r, gst1)"
    and a3: "[] = (case r of Inl err \<Rightarrow> Description grepo | Inr content \<Rightarrow> content)"
    using a by simp_all
  note run_body_parts [OF a1 a2 a3 s]
  then show "\<exists>item. run_body genv c grepo gst
                     = (Some item, gst1\<lparr>trace := trace gst1 @ [SummarizeCall []]\<rparr>)
                  \<and> Summary item = noDescription"
    by simp
next
  assume "ts_fetchReadme env (element (split (title repo) 0x2F) 0)
          (element (split (title repo) 0x2F) 1) st = (Some [], st')"
  then show "callback env k repo st = (withSummary repo ts_summaryFailed, st')"
    by (rule callback_empty)
qed

theorem C5_empty_text_witness:
  "SplitN (Title (sample ''a/b'' [] [])) CHR ''/'' 2 = [''a'', ''b'']
   \<and> fetchReadme go_offline ''a'' ''b'' st0
       = (Inl GetReadmeError, \<lparr>world = (), trace = [GetReadmeCall ''a'' ''b'']\<rparr>)
   \<and> Description (sample ''a/b'' [] []) = []
   \<and> (\<exists>item. run_body go_offline client0 (sample ''a/b'' [] []) st0
                = (Some item, \<lparr>world = (), trace = [GetReadmeCall ''a'' ''b'', SummarizeCall []]\<rparr>)
             \<and> Summary item = noDescription)
   \<and> SplitN (Title (sample ''a/b'' ''foo'' [])) CHR ''/'' 2 = [''a'', ''b'']
   \<and> fetchReadme (go_serves [] ''ok'') ''a'' ''b'' st0
       = (Inr [], \<lparr>world = (), trace = [GetReadmeCall ''a'' ''b'']\<rparr>)
   \<and> (\<exists>item. run_body (go_serves [] ''ok'') client0 (sample ''a/b'' ''foo'' []) st0
                = (Some item, \<lparr>world = (), trace = [GetReadmeCall ''a'' ''b'', SummarizeCall []]\<rparr>)
             \<and> Summary item = noDescription)
   \<and> ts_fetchReadme (ts_serves []) (element (split (title (ts_sample ''a/b'' [])) 0x2F) 0)
          (element (split (title (ts_sample ''a/b'' [])) 0x2F) 1) st0
       = (Some [], \<lparr>world = (),
                    trace = [FetchCall (js ''https://raw.githubusercontent.com/a/b/main/README.md'')]\<rparr>)
   \<and> callback (ts_serves []) [] (ts_sample ''a/b'' []) st0
       = (withSummary (ts_sample ''a/b'' []) ts_summaryFailed,
          \<lparr>world = (),
           trace = [FetchCall (js ''https://raw.githubusercontent.com/a/b/main/README.md'')]\<rparr>)"
proof -
  let ?g1 = "\<lparr>world = (), trace = [GetReadmeCall ''a'' ''b'']\<rparr> :: (unit, go_event) exec"
  let ?t1 = "\<lparr>world = (),
              trace = [FetchCall (js ''https://raw.githubusercontent.com/a/b/main/README.md'')]\<rparr>
             :: (unit, ts_event) exec"
  have h1: "SplitN (Title (sample ''a/b'' [] [])) CHR ''/'' 2 = [''a'', ''b'']"
    by (simp add: sample_def SplitN_two)
  have h2: "fetchReadme go_offline ''a'' ''b'' st0 = (Inl GetReadmeError, ?g1)"
    by (simp add: go_eval)
  have h3: "(case (Inl GetReadmeError :: error + string) of
               Inl err \<Rightarrow> Description (sample ''a/b'' [] []) | Inr content \<Rightarrow> content) = []"
    by (simp add: sample_def)
  have d: "Description (sample ''a/b'' [] []) = []"
    by (simp add: sample_def)
  have k1: "SplitN (Title (sample ''a/b'' ''foo'' [])) CHR ''/'' 2 = [''a'', ''b'']"
    by (simp add: sample_def SplitN_two)
  have k2: "fetchReadme (go_serves [] ''ok'') ''a'' ''b'' st0 = (Inr [], ?g1)"
    by (simp add: go_eval)
  have k3: "(case (Inr [] :: error + string) of
               Inl err \<Rightarrow> Description (sample ''a/b'' ''foo'' []) | Inr content \<Rightarrow> content) = []"
    by simp
  have h4: "ts_fetchReadme (ts_serves []) (element (split (title (ts_sample ''a/b'' [])) 0x2F) 0)
          (element (split (title (ts_sample ''a/b'' [])) 0x2F) 1) st0 = (Some [], ?t1)"
    by (simp add: ts_eval)
  note T = C5_empty_text [of go_offline client0 st0 "sample ''a/b'' [] []" "''a''" "''b''"
      "Inl GetReadmeError" ?g1 "ts_serves []" "ts_sample ''a/b'' []" st0 ?t1 "[]"]
  note U = C5_empty_text [of "go_serves [] ''ok''" client0 st0 "sample ''a/b'' ''foo'' []" "''a''" "''b''"
      "Inr []" ?g1 "ts_serves []" "ts_sample ''a/b'' []" st0 ?t1 "[]"]
  from T h1 h2 h3 have g: "\<exists>item. run_body go_offline client0 (sample ''a/b'' [] []) st0
                = (Some item, ?g1\<lparr>trace := trace ?g1 @ [SummarizeCall []]\<rparr>)
             \<and> Summary item = noDescription"
    by blast
  from U k1 k2 k3 have g': "\<exists>item. run_body (go_serves [] ''ok'') client0 (sample ''a/b'' ''foo'' []) st0
                = (Some item, ?g1\<lparr>trace := trace ?g1 @ [SummarizeCall []]\<rparr>)
             \<and> Summary item = noDescription"
    by blast
  from T h4 have t: "callback (ts_serves []) [] (ts_sample ''a/b'' []) st0
       = (withSummary (ts_sample ''a/b'' []) ts_summaryFailed, ?t1)"
    by blast
  from h1 h2 d g k1 k2 g' h4 t show ?thesis by simp
qed

text \<open>
  Claim C5 as stated fails on the TypeScript side. \<open>summarizeReadme\<close> has no test for the
  empty text: called with it, it sends the bare template to the backend and returns the
  answer. And the pipeline, for a README that is the empty string, gives the
  "summarization failed" placeholder, not the "no description" one (U+8AAC U+660E
  U+306A U+3057).
\<close>

theorem C5_ts_empty_text_counterexample:
  "summarizeReadme (ts_serves []) [] [] st0
     = (js ''ok'',
        \<lparr>world = (),
         trace = [GenerateContentCall []
                    \<lparr>model = js ''gemini-2.0-flash'', contents = ts_promptTemplate\<rparr>]\<rparr>)
   \<and> js ''ok'' \<noteq> [0x8AAC, 0x660E, 0x306A, 0x3057]
   \<and> getTrendingReposWithSummary (ts_serves []) [] [0] [ts_sample ''a/b'' []] st0
       = (Some [withSummary (ts_sample ''a/b'' []) ts_summaryFailed],
          \<lparr>world = (),
           trace = [FetchCall (js ''https://raw.githubusercontent.com/a/b/main/README.md'')]\<rparr>)
   \<and> ts_summaryFailed \<noteq> [0x8AAC, 0x660E, 0x306A, 0x3057]"
  by (simp add: ts_eval)

subsection \<open>C6: truncation before submission\<close>

text \<open>
  Claim C6, as amended. The Go \<open>Summarize\<close> sends at most one request (one, when the
  text is not empty and the request can be built). Its body is the JSON encoding of
  the model name, of the prompt (the template followed by the first \<open>maxReadmeLen\<close>
  bytes of the text, so that a longer text is cut to exactly that length) and of the
  stream flag. The encoding writes a byte of the text as up to six bytes, so the body is
  at most six times \<open>maxReadmeLen\<close> plus what the template, the model name and the
  punctuation take. The TypeScript \<open>summarizeReadme\<close> hands \<open>generateContent\<close> the
  template followed by the whole text.
\<close>

theorem C6_request_body_bound:
  "trace (snd (Summarize genv c readme gst)) =
     trace gst @ (if readme \<noteq> [] \<and> NewRequest genv (BaseURL c @ ''/api/generate'')
                  then [HttpPost (BaseURL c @ ''/api/generate'')
                          (encodeRequest
                             \<lparr>OllamaRequest.Model = Model c,
                              Prompt = promptTemplate @ take maxReadmeLen readme, Stream = False\<rparr>)]
                  else [])
   \<and> (maxReadmeLen < length readme \<longrightarrow> length (take maxReadmeLen readme) = maxReadmeLen)
   \<and> length (encodeRequest
                \<lparr>OllamaRequest.Model = Model c,
                 Prompt = promptTemplate @ take maxReadmeLen readme, Stream = False\<rparr>)
       \<le> 6 * maxReadmeLen + (6 * length (Model c) + 121)
   \<and> trace (snd (summarizeReadme env rd k st)) =
       trace st @ [GenerateContentCall k
                     \<lparr>model = js ''gemini-2.0-flash'', contents = ts_promptTemplate @ rd\<rparr>]"
proof -
  have "length (escapeString (take maxReadmeLen readme)) \<le> 6 * length (take maxReadmeLen readme)"
    by (rule length_escapeString)
  then have r: "length (escapeString (take maxReadmeLen readme)) \<le> 6 * maxReadmeLen"
    by simp
  have m: "length (escapeString (Model c)) \<le> 6 * length (Model c)"
    by (rule length_escapeString)
  have "length (encodeRequest
                \<lparr>OllamaRequest.Model = Model c,
                 Prompt = promptTemplate @ take maxReadmeLen readme, Stream = False\<rparr>)
       \<le> 6 * maxReadmeLen + (6 * length (Model c) + 121)"
    using r m by (simp add: length_encodeRequest)
  then show ?thesis
    by (simp add: Summarize_trace summarizeReadme_trace)
qed

theorem C6_request_body_bound_witness:
  "maxReadmeLen < length (replicate 10001 CHR ''<'')
   \<and> trace (snd (Summarize go_offline client0 (replicate 10001 CHR ''<'') st0))
       = [HttpPost ''http://localhost:11434/api/generate''
            (encodeRequest
               \<lparr>OllamaRequest.Model = ''m'',
                Prompt = promptTemplate @ replicate 10000 CHR ''<'', Stream = False\<rparr>)]
   \<and> length (take maxReadmeLen (replicate 10001 CHR ''<'')) = maxReadmeLen
   \<and> length (encodeRequest
                \<lparr>OllamaRequest.Model = ''m'',
                 Prompt = promptTemplate @ replicate 10000 CHR ''<'', Stream = False\<rparr>)
       = 60122
   \<and> (60122 :: nat) \<le> 6 * maxReadmeLen + (6 * length ''m'' + 121)"
proof -
  have h: "maxReadmeLen < length (replicate 10001 CHR ''<'')"
    by (simp add: maxReadmeLen_def)
  note T = C6_request_body_bound
      [of go_offline client0 "replicate 10001 CHR ''<''" st0 ts_offline "[]" "[]" st0]
  from T h have l: "length (take maxReadmeLen (replicate 10001 CHR ''<'')) = maxReadmeLen"
    by blast
  from T have t: "trace (snd (Summarize go_offline client0 (replicate 10001 CHR ''<'') st0))
       = [HttpPost ''http://localhost:11434/api/generate''
            (encodeRequest
               \<lparr>OllamaRequest.Model = ''m'',
                Prompt = promptTemplate @ replicate 10000 CHR ''<'', Stream = False\<rparr>)]"
    by (simp add: go_offline_def client0_def st0_def maxReadmeLen_def)
  have e: "escapeString (replicate 10000 CHR ''<'' @ [])
             = concat (replicate 10000 (escapeByte CHR ''<'')) @ escapeString []"
    by (rule escapeString_ascii) simp
  have n: "length (encodeRequest
                \<lparr>OllamaRequest.Model = ''m'',
                 Prompt = promptTemplate @ replicate 10000 CHR ''<'', Stream = False\<rparr>)
       = 60122"
    using e by (simp add: length_encodeRequest length_concat_replicate escapeByte_def htmlSafe_def)
  have b: "(60122 :: nat) \<le> 6 * maxReadmeLen + (6 * length ''m'' + 121)"
    by (simp add: maxReadmeLen_def)
  from h t l n b show ?thesis by simp
qed

text \<open>
  Claim C6 as stated fails on both sides. In Go the text is cut, but the body is not
  within the bound plus a fixed overhead: with the model name \<open>m\<close>, a text of 10001
  letters gives a body of \<open>maxReadmeLen\<close> + 122 bytes, a text of 10001 line feeds one
  of twice \<open>maxReadmeLen\<close> + 122 bytes; and when the cut falls inside a character (9999
  letters and then a character of three bytes), the first byte of that character is sent
  as the six bytes of the replacement escape. The TypeScript \<open>summarizeReadme\<close> does not
  cut at all: a text of 10001 code units goes to the backend whole.
\<close>

theorem C6_body_exceeds_bound_counterexample:
  "maxReadmeLen < length (replicate 10001 CHR 0x0A)
   \<and> trace (snd (Summarize go_offline client0 (replicate 10001 CHR 0x0A) st0))
       = [HttpPost ''http://localhost:11434/api/generate''
            (encodeRequest
               \<lparr>OllamaRequest.Model = ''m'',
                Prompt = promptTemplate @ replicate 10000 CHR 0x0A, Stream = False\<rparr>)]
   \<and> length (encodeRequest
                \<lparr>OllamaRequest.Model = ''m'',
                 Prompt = promptTemplate @ replicate 10000 CHR 0x0A, Stream = False\<rparr>)
       = 2 * maxReadmeLen + 122
   \<and> length (encodeRequest
                \<lparr>OllamaRequest.Model = ''m'',
                 Prompt = promptTemplate @ take maxReadmeLen (replicate 10001 CHR ''a''),
                 Stream = False\<rparr>)
       = maxReadmeLen + 122
   \<and> take maxReadmeLen (replicate 9999 CHR ''a'' @ [CHR 0xE8, CHR 0xAA, CHR 0xAC])
       = replicate 9999 CHR ''a'' @ [CHR 0xE8]
   \<and> escapeString (replicate 9999 CHR ''a'' @ [CHR 0xE8])
       = replicate 9999 CHR ''a'' @ [CHR 0x5C, CHR ''u'', CHR ''f'', CHR ''f'', CHR ''f'', CHR ''d'']
   \<and> maxReadmeLen < length (replicate 10001 (0x61 :: 16 word))
   \<and> trace (snd (summarizeReadme ts_offline (replicate 10001 0x61) [] st0))
       = [GenerateContentCall []
            \<lparr>model = js ''gemini-2.0-flash'', contents = ts_promptTemplate @ replicate 10001 0x61\<rparr>]
   \<and> maxReadmeLen + length ts_promptTemplate
       < length (ts_promptTemplate @ replicate 10001 (0x61 :: 16 word))"
proof -
  have t: "trace (snd (Summarize go_offline client0 (replicate 10001 CHR 0x0A) st0))
       = [HttpPost ''http://localhost:11434/api/generate''
            (encodeRequest
               \<lparr>OllamaRequest.Model = ''m'',
                Prompt = promptTemplate @ replicate 10000 CHR 0x0A, Stream = False\<rparr>)]"
    by (simp add: Summarize_trace go_offline_def client0_def st0_def maxReadmeLen_def)
  have e1: "escapeString (replicate 10000 CHR 0x0A @ [])
             = concat (replicate 10000 (escapeByte CHR 0x0A)) @ escapeString []"
    by (rule escapeString_ascii) simp
  have n1: "length (encodeRequest
                \<lparr>OllamaRequest.Model = ''m'',
                 Prompt = promptTemplate @ replicate 10000 CHR 0x0A, Stream = False\<rparr>)
       = 2 * maxReadmeLen + 122"
    using e1
    by (simp add: length_encodeRequest length_concat_replicate escapeByte_def htmlSafe_def
        maxReadmeLen_def)
  have e2: "escapeString (replicate 10000 CHR ''a'' @ [])
             = concat (replicate 10000 (escapeByte CHR ''a'')) @ escapeString []"
    by (rule escapeString_ascii) simp
  have n2: "length (encodeRequest
                \<lparr>OllamaRequest.Model = ''m'',
                 Prompt = promptTemplate @ take maxReadmeLen (replicate 10001 CHR ''a''),
                 Stream = False\<rparr>)
       = maxReadmeLen + 122"
    using e2
    by (simp add: length_encodeRequest length_concat_replicate escapeByte_def htmlSafe_def
        maxReadmeLen_def)
  have c: "take maxReadmeLen (replicate 9999 CHR ''a'' @ [CHR 0xE8, CHR 0xAA, CHR 0xAC])
       = replicate 9999 CHR ''a'' @ [CHR 0xE8]"
    by (simp add: maxReadmeLen_def)
  have e3: "escapeString (replicate 9999 CHR ''a'' @ [CHR 0xE8])
             = concat (replicate 9999 (escapeByte CHR ''a'')) @ escapeString [CHR 0xE8]"
    by (rule escapeString_ascii) simp
  have a: "concat (replicate n (escapeByte CHR ''a'')) = replicate n CHR ''a''" for n
    by (induction n) (simp_all add: escapeByte_def htmlSafe_def)
  have u: "escapeString (replicate 9999 CHR ''a'' @ [CHR 0xE8])
       = replicate 9999 CHR ''a'' @ [CHR 0x5C, CHR ''u'', CHR ''f'', CHR ''f'', CHR ''f'', CHR ''d'']"
    by (simp add: e3 a DecodeRuneInString_def first_byte_def RuneError_def)
  have s: "trace (snd (summarizeReadme ts_offline (replicate 10001 0x61) [] st0))
       = [GenerateContentCall []
            \<lparr>model = js ''gemini-2.0-flash'', contents = ts_promptTemplate @ replicate 10001 0x61\<rparr>]"
    by (simp add: summarizeReadme_trace st0_def)
  have l: "maxReadmeLen + length ts_promptTemplate
       < length (ts_promptTemplate @ replicate 10001 (0x61 :: 16 word))"
    by (simp add: maxReadmeLen_def)
  from t n1 n2 c u s l show ?thesis by (simp add: maxReadmeLen_def)
qed

subsection \<open>C7: the candidates of the documentation fetcher\<close>

text \<open>
  Claim C7, as amended. The TypeScript \<open>fetchReadme\<close> asks for the branch \<open>main\<close> first.
  If that fetch is fulfilled with an ok response whose text can be read, the text is the
  result and \<open>master\<close> is not asked for. In every other case (the fetch is rejected, the
  response is not ok, or reading the text fails) it asks for \<open>master\<close>, in the world the
  first fetch left; the result is that text if this one succeeds, and \<open>null\<close> if it fails
  too. The Go \<open>fetchReadme\<close> makes one \<open>GetReadme\<close> call, and returns an error when the
  call fails.
\<close>

theorem C7_fetchReadme_candidates:
  "(fetch env (readmeUrl owner nm (js ''main'')) (world st)
      = (Fulfilled (ts_Response True (Fulfilled t)), w1)
    \<longrightarrow> ts_fetchReadme env owner nm st
          = (Some t, st\<lparr>world := w1,
                         trace := trace st @ [FetchCall (readmeUrl owner nm (js ''main''))]\<rparr>))
   \<and> (fetch env (readmeUrl owner nm (js ''main'')) (world st) = (r1, w1)
      \<and> (\<forall>x. r1 \<noteq> Fulfilled (ts_Response True (Fulfilled x)))
      \<and> fetch env (readmeUrl owner nm (js ''master'')) w1
          = (Fulfilled (ts_Response True (Fulfilled t)), w2)
    \<longrightarrow> ts_fetchReadme env owner nm st
          = (Some t, st\<lparr>world := w2,
                         trace := trace st @ [FetchCall (readmeUrl owner nm (js ''main'')),
                                              FetchCall (readmeUrl owner nm (js ''master''))]\<rparr>))
   \<and> (fetch env (readmeUrl owner nm (js ''main'')) (world st) = (r1, w1)
      \<and> (\<forall>x. r1 \<noteq> Fulfilled (ts_Response True (Fulfilled x)))
      \<and> fetch env (readmeUrl owner nm (js ''master'')) w1 = (r2, w2)
      \<and> (\<forall>x. r2 \<noteq> Fulfilled (ts_Response True (Fulfilled x)))
    \<longrightarrow> ts_fetchReadme env owner nm st
          = (None, st\<lparr>world := w2,
                       trace := trace st @ [FetchCall (readmeUrl owner nm (js ''main'')),
                                            FetchCall (readmeUrl owner nm (js ''master''))]\<rparr>))
   \<and> trace (snd (fetchReadme genv gowner gnm gst)) = trace gst @ [GetReadmeCall gowner gnm]
   \<and> (fst (GetReadme genv gowner gnm (world gst)) = None
      \<longrightarrow> fst (fetchReadme genv gowner gnm gst) = Inl GetReadmeError)"
proof (intro conjI impI)
  assume "fetch env (readmeUrl owner nm (js ''main'')) (world st)
      = (Fulfilled (ts_Response True (Fulfilled t)), w1)"
  then show "ts_fetchReadme env owner nm st
          = (Some t, st\<lparr>world := w1,
                         trace := trace st @ [FetchCall (readmeUrl owner nm (js ''main''))]\<rparr>)"
    by (simp add: ts_fetchReadme_def branches_def fetchReadme_branch_ok)
next
  assume a: "fetch env (readmeUrl owner nm (js ''main'')) (world st) = (r1, w1)
      \<and> (\<forall>x. r1 \<noteq> Fulfilled (ts_Response True (Fulfilled x)))
      \<and> fetch env (readmeUrl owner nm (js ''master'')) w1
          = (Fulfilled (ts_Response True (Fulfilled t)), w2)"
  let ?st1 = "st\<lparr>world := w1, trace := trace st @ [FetchCall (readmeUrl owner nm (js ''main''))]\<rparr>"
  have a1: "fetch env (readmeUrl owner nm (js ''main'')) (world st) = (r1, w1)"
    and a2: "\<And>x. r1 \<noteq> Fulfilled (ts_Response True (Fulfilled x))"
    using a by simp_all
  have b1: "fetchReadme_branch env owner nm (js ''main'') st = (None, ?st1)"
    using a1 a2 by (rule fetchReadme_branch_failed)
  have b2: "fetchReadme_branch env owner nm (js ''master'') ?st1
              = (Some t, ?st1\<lparr>world := w2,
                    trace := trace ?st1 @ [FetchCall (readmeUrl owner nm (js ''master''))]\<rparr>)"
    using a by (intro fetchReadme_branch_ok) simp
  show "ts_fetchReadme env owner nm st
          = (Some t, st\<lparr>world := w2,
                         trace := trace st @ [FetchCall (readmeUrl owner nm (js ''main'')),
                                              FetchCall (readmeUrl owner nm (js ''master''))]\<rparr>)"
    by (simp add: ts_fetchReadme_def branches_def b1 b2)
next
  assume a: "fetch env (readmeUrl owner nm (js ''main'')) (world st) = (r1, w1)
      \<and> (\<forall>x. r1 \<noteq> Fulfilled (ts_Response True (Fulfilled x)))
      \<and> fetch env (readmeUrl owner nm (js ''master'')) w1 = (r2, w2)
      \<and> (\<forall>x. r2 \<noteq> Fulfilled (ts_Response True (Fulfilled x)))"
  let ?st1 = "st\<lparr>world := w1, trace := trace st @ [FetchCall (readmeUrl owner nm (js ''main''))]\<rparr>"
  have a1: "fetch env (readmeUrl owner nm (js ''main'')) (world st) = (r1, w1)"
    and a2: "\<And>x. r1 \<noteq> Fulfilled (ts_Response True (Fulfilled x))"
    using a by simp_all
  have b1: "fetchReadme_branch env owner nm (js ''main'') st = (None, ?st1)"
    using a1 a2 by (rule fetchReadme_branch_failed)
  have a3: "fetch env (readmeUrl owner nm (js ''master'')) (world ?st1) = (r2, w2)"
    and a4: "\<And>x. r2 \<noteq> Fulfilled (ts_Response True (Fulfilled x))"
    using a by simp_all
  have b2: "fetchReadme_branch env owner nm (js ''master'') ?st1
              = (None, ?st1\<lparr>world := w2,
                    trace := trace ?st1 @ [FetchCall (readmeUrl owner nm (js ''master''))]\<rparr>)"
    using a3 a4 by (rule fetchReadme_branch_failed)
  show "ts_fetchReadme env owner nm st
          = (None, st\<lparr>world := w2,
                       trace := trace st @ [FetchCall (readmeUrl owner nm (js ''main'')),
                                            FetchCall (readmeUrl owner nm (js ''master''))]\<rparr>)"
    by (simp add: ts_fetchReadme_def branches_def b1 b2)
next
  show "trace (snd (fetchReadme genv gowner gnm gst)) = trace gst @ [GetReadmeCall gowner gnm]"
    by (rule fetchReadme_trace)
next
  assume "fst (GetReadme genv gowner gnm (world gst)) = None"
  then show "fst (fetchReadme genv gowner gnm gst) = Inl GetReadmeError"
    by (cases "GetReadme genv gowner gnm (world gst)") (simp add: fetchReadme_def)
qed

theorem C7_fetchReadme_candidates_witness:
  "fetch (ts_serves (js ''hi'')) (readmeUrl (Some (js ''a'')) (Some (js ''b'')) (js ''main'')) ()
     = (Fulfilled (ts_Response True (Fulfilled (js ''hi''))), ())
   \<and> ts_fetchReadme (ts_serves (js ''hi'')) (Some (js ''a'')) (Some (js ''b'')) st0
       = (Some (js ''hi''),
          \<lparr>world = (),
           trace = [FetchCall (js ''https://raw.githubusercontent.com/a/b/main/README.md'')]\<rparr>)
   \<and> fetch (ts_master_only (js ''hi'')) (readmeUrl (Some (js ''a'')) (Some (js ''b'')) (js ''main'')) ()
       = (Rejected, ())
   \<and> fetch (ts_master_only (js ''hi'')) (readmeUrl (Some (js ''a'')) (Some (js ''b'')) (js ''master'')) ()
       = (Fulfilled (ts_Response True (Fulfilled (js ''hi''))), ())
   \<and> ts_fetchReadme (ts_master_only (js ''hi'')) (Some (js ''a'')) (Some (js ''b'')) st0
       = (Some (js ''hi''),
          \<lparr>world = (),
           trace = [FetchCall (js ''https://raw.githubusercontent.com/a/b/main/README.md''),
                    FetchCall (js ''https://raw.githubusercontent.com/a/b/master/README.md'')]\<rparr>)
   \<and> fetch ts_offline (readmeUrl (Some (js ''a'')) (Some (js ''b'')) (js ''main'')) () = (Rejected, ())
   \<and> fetch ts_offline (readmeUrl (Some (js ''a'')) (Some (js ''b'')) (js ''master'')) () = (Rejected, ())
   \<and> ts_fetchReadme ts_offline (Some (js ''a'')) (Some (js ''b'')) st0
       = (None,
          \<lparr>world = (),
           trace = [FetchCall (js ''https://raw.githubusercontent.com/a/b/main/README.md''),
                    FetchCall (js ''https://raw.githubusercontent.com/a/b/master/README.md'')]\<rparr>)
   \<and> fst (GetReadme go_offline ''a'' ''b'' ()) = None
   \<and> fst (fetchReadme go_offline ''a'' ''b'' st0) = Inl GetReadmeError"
proof -
  let ?a = "Some (js ''a'')" and ?b = "Some (js ''b'')"
  have w: "world (st0 :: (unit, ts_event) exec) = ()" "world (st0 :: (unit, go_event) exec) = ()"
    by simp_all
  have h1: "fetch (ts_serves (js ''hi'')) (readmeUrl ?a ?b (js ''main'')) (world (st0 :: (unit, ts_event) exec))
     = (Fulfilled (ts_Response True (Fulfilled (js ''hi''))), ())"
    by (simp add: ts_serves_def)
  have h2: "fetch (ts_master_only (js ''hi'')) (readmeUrl ?a ?b (js ''main'')) (world (st0 :: (unit, ts_event) exec))
       = (Rejected, ())"
    by (simp add: ts_master_only_def readmeUrl_def toString_def js_def)
  have h3: "fetch (ts_master_only (js ''hi'')) (readmeUrl ?a ?b (js ''master'')) ()
       = (Fulfilled (ts_Response True (Fulfilled (js ''hi''))), ())"
    by (simp add: ts_master_only_def)
  have h4: "fetch ts_offline (readmeUrl ?a ?b (js ''main'')) (world (st0 :: (unit, ts_event) exec)) = (Rejected, ())"
    by (simp add: ts_offline_def)
  have h5: "fetch ts_offline (readmeUrl ?a ?b (js ''master'')) () = (Rejected, ())"
    by (simp add: ts_offline_def)
  have h6: "fst (GetReadme go_offline ''a'' ''b'' (world (st0 :: (unit, go_event) exec))) = None"
    by (simp add: go_offline_def)
  have n: "\<forall>x. (Rejected :: ts_Response settled) \<noteq> Fulfilled (ts_Response True (Fulfilled x))"
    by simp
  note A = C7_fetchReadme_candidates [of "ts_serves (js ''hi'')" ?a ?b st0 "js ''hi''" "()"
      Rejected "()" Rejected go_offline "''a''" "''b''" st0]
  note B = C7_fetchReadme_candidates [of "ts_master_only (js ''hi'')" ?a ?b st0 "js ''hi''" "()"
      Rejected "()" Rejected go_offline "''a''" "''b''" st0]
  note C = C7_fetchReadme_candidates [of ts_offline ?a ?b st0 "[]" "()"
      Rejected "()" Rejected go_offline "''a''" "''b''" st0]
  from A h1 have r1: "ts_fetchReadme (ts_serves (js ''hi'')) ?a ?b st0
       = (Some (js ''hi''), st0\<lparr>world := (), trace := trace st0 @ [FetchCall (readmeUrl ?a ?b (js ''main''))]\<rparr>)"
    by blast
  from B h2 h3 n have r2: "ts_fetchReadme (ts_master_only (js ''hi'')) ?a ?b st0
       = (Some (js ''hi''), st0\<lparr>world := (), trace := trace st0 @ [FetchCall (readmeUrl ?a ?b (js ''main'')),
                                              FetchCall (readmeUrl ?a ?b (js ''master''))]\<rparr>)"
    by blast
  from C h4 h5 n have r3: "ts_fetchReadme ts_offline ?a ?b st0
       = (None, st0\<lparr>world := (), trace := trace st0 @ [FetchCall (readmeUrl ?a ?b (js ''main'')),
                                              FetchCall (readmeUrl ?a ?b (js ''master''))]\<rparr>)"
    by blast
  from C h6 have r4: "fst (fetchReadme go_offline ''a'' ''b'' st0) = Inl GetReadmeError"
    by blast
  have u: "readmeUrl ?a ?b (js ''main'') = js ''https://raw.githubusercontent.com/a/b/main/README.md''"
    "readmeUrl ?a ?b (js ''master'') = js ''https://raw.githubusercontent.com/a/b/master/README.md''"
    by (simp_all add: readmeUrl_def toString_def js_def)
  from h1 h2 h3 h4 h5 h6 r1 r2 r3 r4 show ?thesis
    by (simp add: u st0_def)
qed

text \<open>
  Claim C7 as stated fails on the Go \<open>fetchReadme\<close>: there is one candidate, and when it
  fails the function returns an error, not an absent value.
\<close>

theorem C7_go_fetchReadme_counterexample:
  "fetchReadme go_offline ''a'' ''b'' st0
     = (Inl GetReadmeError, \<lparr>world = (), trace = [GetReadmeCall ''a'' ''b'']\<rparr>)"
  by (simp add: go_eval)

subsection \<open>C8: the fields of the source item\<close>

text \<open>
  Claim C8. The output is not longer than the input, and every output item has the
  title, URL, description, language, language colour, stars, forks, added stars and
  contributors of the input item it comes from: in Go the item at the same position
  among the kept ones, in TypeScript (under every schedule) the item at the same
  position of the feed. The summary is the one field the record type adds.
\<close>

theorem C8_enrich_keeps_source_fields:
  "length (fst (run_results genv c grepos gst)) \<le> length grepos
   \<and> (\<forall>i<length (fst (run_results genv c grepos gst)).
         unchanged (fst (run_results genv c grepos gst) ! i) (kept grepos ! i))
   \<and> (\<forall>sched out. fst (getTrendingReposWithSummary env k sched repos st) = Some out \<longrightarrow>
         length out \<le> length repos \<and> (\<forall>i<length out. ts_unchanged (out ! i) (repos ! i)))"
proof -
  let ?out = "fst (run_results genv c grepos gst)"
  have m: "map TrendingRepo.truncate ?out = kept grepos"
    by (rule run_results_truncate)
  have len: "length ?out = length (kept grepos)"
    using m by (metis length_map)
  have go1: "length ?out \<le> length grepos"
    by (simp add: len kept_def)
  have go2: "unchanged (?out ! i) (kept grepos ! i)" if "i < length ?out" for i
  proof -
    have "TrendingRepo.truncate (?out ! i) = kept grepos ! i"
      using m that by (rule map_eq_nth)
    then have "kept grepos ! i = TrendingRepo.truncate (?out ! i)" by simp
    then show ?thesis by (simp add: unchanged_def TrendingRepo.truncate_def)
  qed
  have ts: "length out \<le> length repos \<and> (\<forall>i<length out. ts_unchanged (out ! i) (repos ! i))"
    if "fst (getTrendingReposWithSummary env k sched repos st) = Some out" for sched out
  proof -
    have mt: "map ts_TrendingRepo.truncate out = repos"
      using that by (rule getTrending_truncate)
    then have l: "length out = length repos" by (metis length_map)
    have "ts_TrendingRepo.truncate (out ! i) = repos ! i" if "i < length out" for i
      using mt that by (rule map_eq_nth)
    then have "\<forall>i<length out. repos ! i = ts_TrendingRepo.truncate (out ! i)" by simp
    then show ?thesis using l by (simp add: ts_unchanged_def ts_TrendingRepo.truncate_def)
  qed
  show ?thesis using go1 go2 ts by blast
qed

theorem C8_enrich_keeps_source_fields_witness:
  "fst (run_results (go_no_readme ''ok'') client0
          [sample ''bad'' ''x'' [], sample ''a/b'' ''foo'' ''#3178c6''] st0)
     = [\<lparr>Title = ''a/b'', URL = ''https://github.com/a/b'', Description = ''foo'',
         Language = ''Go'', LanguageColor = ''#3178c6'', Stars = ''10'', Forks = ''1'',
         AddStars = ''2'', Contributors = [], Summary = ''ok''\<rparr>]
   \<and> kept [sample ''bad'' ''x'' [], sample ''a/b'' ''foo'' ''#3178c6''] = [sample ''a/b'' ''foo'' ''#3178c6'']
   \<and> length (fst (run_results (go_no_readme ''ok'') client0
          [sample ''bad'' ''x'' [], sample ''a/b'' ''foo'' ''#3178c6''] st0))
       \<le> length [sample ''bad'' ''x'' [], sample ''a/b'' ''foo'' ''#3178c6'']
   \<and> unchanged (fst (run_results (go_no_readme ''ok'') client0
          [sample ''bad'' ''x'' [], sample ''a/b'' ''foo'' ''#3178c6''] st0) ! 0)
        (kept [sample ''bad'' ''x'' [], sample ''a/b'' ''foo'' ''#3178c6''] ! 0)
   \<and> fst (getTrendingReposWithSummary (ts_serves (js ''hi'')) [] [1, 0, 1, 0]
            [ts_sample ''bad'' ''x'', ts_sample ''a/b'' ''foo''] st0)
       = Some [withSummary (ts_sample ''bad'' ''x'') (js ''ok''),
               withSummary (ts_sample ''a/b'' ''foo'') (js ''ok'')]
   \<and> ts_unchanged (withSummary (ts_sample ''bad'' ''x'') (js ''ok'')) (ts_sample ''bad'' ''x'')
   \<and> ts_unchanged (withSummary (ts_sample ''a/b'' ''foo'') (js ''ok'')) (ts_sample ''a/b'' ''foo'')"
proof -
  let ?grepos = "[sample ''bad'' ''x'' [], sample ''a/b'' ''foo'' ''#3178c6'']"
  let ?repos = "[ts_sample ''bad'' ''x'', ts_sample ''a/b'' ''foo'']"
  let ?out = "[withSummary (ts_sample ''bad'' ''x'') (js ''ok''),
               withSummary (ts_sample ''a/b'' ''foo'') (js ''ok'')]"
  have e1: "fst (run_results (go_no_readme ''ok'') client0 ?grepos st0)
     = [\<lparr>Title = ''a/b'', URL = ''https://github.com/a/b'', Description = ''foo'',
         Language = ''Go'', LanguageColor = ''#3178c6'', Stars = ''10'', Forks = ''1'',
         AddStars = ''2'', Contributors = [], Summary = ''ok''\<rparr>]"
    by (simp add: go_eval)
  have e2: "kept ?grepos = [sample ''a/b'' ''foo'' ''#3178c6'']"
    by (simp add: kept_def sample_def)
  have h: "fst (getTrendingReposWithSummary (ts_serves (js ''hi'')) [] [1, 0, 1, 0] ?repos st0)
             = Some ?out"
    by (simp add: ts_eval)
  note T = C8_enrich_keeps_source_fields
      [of "go_no_readme ''ok''" client0 ?grepos st0 "ts_serves (js ''hi'')" "[]" ?repos st0]
  have l: "(0::nat) < length (fst (run_results (go_no_readme ''ok'') client0 ?grepos st0))"
    by (simp add: e1)
  from T l have g: "unchanged (fst (run_results (go_no_readme ''ok'') client0 ?grepos st0) ! 0)
        (kept ?grepos ! 0)"
    by blast
  from T have gl: "length (fst (run_results (go_no_readme ''ok'') client0 ?grepos st0)) \<le> length ?grepos"
    by blast
  from T h have t: "\<forall>i<length ?out. ts_unchanged (?out ! i) (?repos ! i)"
    by blast
  have t0: "ts_unchanged (?out ! 0) (?repos ! 0)" using t [rule_format, of 0] by simp
  have t1: "ts_unchanged (?out ! 1) (?repos ! 1)" using t [rule_format, of 1] by simp
  from e1 e2 gl g h t0 t1 show ?thesis by simp
qed

subsection \<open>C9: the colour of the embed\<close>

text \<open>
  Claim C9 says that the embed's colour is the fallback colour when the language colour
  is absent or cannot be parsed. \<open>languageToColor\<close> gives the fallback for the empty
  string (\<open>languageToColor_empty\<close>) and the value of the digits for \<open>#\<close> followed by
  hexadecimal digits (\<open>languageToColor_hex\<close>). For a string that does not scan it
  ignores the error of \<open>Sscanf\<close> and returns the zero the variable was declared with:
  below, the colour name \<open>red\<close> gives 0, also in the embed built for the item.
\<close>

theorem C9_unparsable_color_gives_zero:
  "languageToColor ''red'' = 0
   \<and> map (\<lambda>m. map Color (Embeds m))
         (buildDiscordMessages
            (fst (run_results (go_no_readme ''ok'') client0 [sample ''a/b'' ''foo'' ''red''] st0)))
       = [[0]]
   \<and> languageToColor [] = 0x7289DA"
  by (simp add: go_eval color_eval buildDiscordMessages_def reposPerMessage_def repoEmbed_def)

subsection \<open>C10: titles with two or more separators\<close>

text \<open>
  Claim C10. A title with at least two separators is \<open>owner / seg / rest\<close>, where neither
  \<open>owner\<close> nor \<open>seg\<close> holds a separator. Go keeps the item and asks GitHub for the README
  of \<open>owner\<close> and the name \<open>seg / rest\<close>, the whole remainder. TypeScript keeps the item
  too, and its first fetch is for \<open>owner\<close> and the name \<open>seg\<close> alone. The two names differ,
  one holding a separator and the other not.
\<close>

theorem C10_two_separators:
  "(2 \<le> count_list (Title grepo) CHR ''/'' \<longrightarrow>
      (\<exists>owner seg rest item gst' more.
         Title grepo = owner @ CHR ''/'' # seg @ CHR ''/'' # rest
         \<and> CHR ''/'' \<notin> set owner \<and> CHR ''/'' \<notin> set seg
         \<and> run_body genv c grepo gst = (Some item, gst')
         \<and> TrendingRepo.truncate item = grepo
         \<and> trace gst' = trace gst @ GetReadmeCall owner (seg @ CHR ''/'' # rest) # more
         \<and> seg @ CHR ''/'' # rest \<noteq> seg))
   \<and> (2 \<le> count_list (title repo) 0x2F \<longrightarrow>
      (\<exists>owner seg rest more.
         title repo = owner @ 0x2F # seg @ 0x2F # rest
         \<and> 0x2F \<notin> set owner \<and> 0x2F \<notin> set seg
         \<and> start repo = AwaitFetch repo (Some owner) (Some seg) branches
         \<and> ts_TrendingRepo.truncate (fst (callback env k repo st)) = repo
         \<and> trace (snd (callback env k repo st))
             = trace st @ FetchCall (readmeUrl (Some owner) (Some seg) (js ''main'')) # more))"
  using go_two_separators [of grepo genv c gst] ts_two_separators [of repo env k st]
  by (intro conjI impI)

theorem C10_two_separators_witness:
  "2 \<le> count_list (Title (sample ''a/b/c'' ''foo'' [])) CHR ''/''
   \<and> (\<exists>owner seg rest item gst' more.
         Title (sample ''a/b/c'' ''foo'' []) = owner @ CHR ''/'' # seg @ CHR ''/'' # rest
         \<and> CHR ''/'' \<notin> set owner \<and> CHR ''/'' \<notin> set seg
         \<and> run_body go_offline client0 (sample ''a/b/c'' ''foo'' []) st0 = (Some item, gst')
         \<and> TrendingRepo.truncate item = sample ''a/b/c'' ''foo'' []
         \<and> trace gst' = trace st0 @ GetReadmeCall owner (seg @ CHR ''/'' # rest) # more
         \<and> seg @ CHR ''/'' # rest \<noteq> seg)
   \<and> trace (snd (run_body go_offline client0 (sample ''a/b/c'' ''foo'' []) st0))
       = [GetReadmeCall ''a'' ''b/c'', SummarizeCall ''foo'',
          HttpPost ''http://localhost:11434/api/generate''
            (encodeRequest
               \<lparr>OllamaRequest.Model = ''m'', Prompt = promptTemplate @ ''foo'', Stream = False\<rparr>)]
   \<and> 2 \<le> count_list (title (ts_sample ''a/b/c'' ''foo'')) 0x2F
   \<and> (\<exists>owner seg rest more.
         title (ts_sample ''a/b/c'' ''foo'') = owner @ 0x2F # seg @ 0x2F # rest
         \<and> 0x2F \<notin> set owner \<and> 0x2F \<notin> set seg
         \<and> start (ts_sample ''a/b/c'' ''foo'')
             = AwaitFetch (ts_sample ''a/b/c'' ''foo'') (Some owner) (Some seg) branches
         \<and> ts_TrendingRepo.truncate (fst (callback ts_offline [] (ts_sample ''a/b/c'' ''foo'') st0))
             = ts_sample ''a/b/c'' ''foo''
         \<and> trace (snd (callback ts_offline [] (ts_sample ''a/b/c'' ''foo'') st0))
             = trace st0 @ FetchCall (readmeUrl (Some owner) (Some seg) (js ''main'')) # more)
   \<and> trace (snd (callback ts_offline [] (ts_sample ''a/b/c'' ''foo'') st0))
       = [FetchCall (js ''https://raw.githubusercontent.com/a/b/main/README.md''),
          FetchCall (js ''https://raw.githubusercontent.com/a/b/master/README.md'')]"
proof -
  have h1: "2 \<le> count_list (Title (sample ''a/b/c'' ''foo'' [])) CHR ''/''"
    by (simp add: sample_def)
  have h2: "2 \<le> count_list (title (ts_sample ''a/b/c'' ''foo'')) 0x2F"
    by (simp add: ts_sample_def js_def)
  note T = C10_two_separators [of "sample ''a/b/c'' ''foo'' []" go_offline client0 st0
      "ts_sample ''a/b/c'' ''foo''" ts_offline "[]" st0]
  have e1: "trace (snd (run_body go_offline client0 (sample ''a/b/c'' ''foo'' []) st0))
       = [GetReadmeCall ''a'' ''b/c'', SummarizeCall ''foo'',
          HttpPost ''http://localhost:11434/api/generate''
            (encodeRequest
               \<lparr>OllamaRequest.Model = ''m'', Prompt = promptTemplate @ ''foo'', Stream = False\<rparr>)]"
    by (simp add: go_eval)
  have e2: "trace (snd (callback ts_offline [] (ts_sample ''a/b/c'' ''foo'') st0))
       = [FetchCall (js ''https://raw.githubusercontent.com/a/b/main/README.md''),
          FetchCall (js ''https://raw.githubusercontent.com/a/b/master/README.md'')]"
    by (simp add: ts_eval)
  from T h1 h2 e1 e2 show ?thesis by blast
qed

end
